theory Spec2Isabelle
  imports Complex_Main
begin

section \<open>The g-code parser of grbl/gcode.c\<close>

text \<open>
  A shallow embedding of \<^verbatim>\<open>gc_execute_line\<close> (grbl/gcode.c). The C function is one long
  body; the model cuts it at the source's own STEP comments into word ingestion (STEP 2),
  error checking (STEP 3) and execution (STEP 4) and keeps the order of every check.

  Conventions of the model.
  \<^item> A C \<^verbatim>\<open>float\<close> is a \<^typ>\<open>real\<close>: arithmetic is exact, no rounding and no overflow.
  \<^item> The line is given as the words the scanning loop meets: the letter read at
    \<^verbatim>\<open>line[char_counter]\<close> and what \<^verbatim>\<open>read_float\<close> returns for the text after it
    (\<open>None\<close> when it returns false). \<^verbatim>\<open>read_float\<close> belongs to nuts_bolts.c, which is not
    part of the sources at hand. A leading \<^verbatim>\<open>$J=\<close> is the flag \<open>jog\<close> of the line.
  \<^item> The bit sets \<^verbatim>\<open>command_words\<close>, \<^verbatim>\<open>value_words\<close>, \<^verbatim>\<open>axis_words\<close> and the parser
    flags are sets of the bit positions that are set; the bit positions (gcode.h, absent)
    are the constructors of a datatype, so only their being distinct is used.
  \<^item> Arrays of \<^verbatim>\<open>N_AXIS\<close> floats are lists; an index is read with \<open>!\<close>, which means
    something only for an index below the length.
  \<^item> What the function does to the outside (planner calls, EEPROM writes) is appended to
    a list of calls in the world; the EEPROM coordinate data is a map in the world.
\<close>

subsection \<open>Constants\<close>

definition MAX_LINE_NUMBER :: int where
  "MAX_LINE_NUMBER = 10000000"

definition AXIS_COMMAND_NONE :: nat where
  "AXIS_COMMAND_NONE = 0"

definition AXIS_COMMAND_NON_MODAL :: nat where
  "AXIS_COMMAND_NON_MODAL = 1"

definition AXIS_COMMAND_MOTION_MODE :: nat where
  "AXIS_COMMAND_MOTION_MODE = 2"

text \<open>config.h: \<^verbatim>\<open>#define N_AXIS 2\<close>.\<close>

definition N_AXIS :: nat where
  "N_AXIS = 2"

text \<open>
  Modelled from the spec: nuts_bolts.h is absent. The axis indices X and Y are the first two
  array positions; with \<^verbatim>\<open>N_AXIS\<close> 2 there is no third axis, and the code under
  \<^verbatim>\<open>#ifdef Z_AXIS\<close> (the letters K and Z) is taken as not compiled.
\<close>

definition X_AXIS :: nat where
  "X_AXIS = 0"

definition Y_AXIS :: nat where
  "Y_AXIS = 1"

text \<open>
  Modelled from the spec: settings.h is absent. The spec names the coordinate systems
  G54 to G59, six of them.
\<close>

definition N_COORDINATE_SYSTEM :: nat where
  "N_COORDINATE_SYSTEM = 6"

text \<open>
  Modelled from the spec: gcode.h is absent. The source stores the number of the G or M word
  itself in the modal fields (\<^verbatim>\<open>gc_block.modal.motion = int_value\<close>, G38.x as
  \<^verbatim>\<open>38 + x + 100\<close>, \<^verbatim>\<open>distance = int_value - 90\<close>, \<^verbatim>\<open>feed_rate = 94 - int_value\<close>), which
  fixes the constants below; \<^verbatim>\<open>PROGRAM_FLOW_PAUSED\<close> is any value other than 0, 2 and 30.
\<close>

definition NON_MODAL_NO_ACTION :: nat where
  "NON_MODAL_NO_ACTION = 0"

definition NON_MODAL_DWELL :: nat where
  "NON_MODAL_DWELL = 4"

definition NON_MODAL_SET_COORDINATE_DATA :: nat where
  "NON_MODAL_SET_COORDINATE_DATA = 10"

definition NON_MODAL_ABSOLUTE_OVERRIDE :: nat where
  "NON_MODAL_ABSOLUTE_OVERRIDE = 53"

definition MOTION_MODE_SEEK :: nat where
  "MOTION_MODE_SEEK = 0"

definition MOTION_MODE_LINEAR :: nat where
  "MOTION_MODE_LINEAR = 1"

definition MOTION_MODE_CW_ARC :: nat where
  "MOTION_MODE_CW_ARC = 2"

definition MOTION_MODE_CCW_ARC :: nat where
  "MOTION_MODE_CCW_ARC = 3"

definition MOTION_MODE_NONE :: nat where
  "MOTION_MODE_NONE = 80"

definition FEED_RATE_MODE_UNITS_PER_MIN :: nat where
  "FEED_RATE_MODE_UNITS_PER_MIN = 0"

definition FEED_RATE_MODE_INVERSE_TIME :: nat where
  "FEED_RATE_MODE_INVERSE_TIME = 1"

definition DISTANCE_MODE_ABSOLUTE :: nat where
  "DISTANCE_MODE_ABSOLUTE = 0"

definition PROGRAM_FLOW_RUNNING :: nat where
  "PROGRAM_FLOW_RUNNING = 0"

definition PROGRAM_FLOW_PAUSED :: nat where
  "PROGRAM_FLOW_PAUSED = 3"

subsection \<open>Data\<close>

datatype status =
    STATUS_OK
  | STATUS_EXPECTED_COMMAND_LETTER
  | STATUS_BAD_NUMBER_FORMAT
  | STATUS_NEGATIVE_VALUE
  | STATUS_SETTING_READ_FAIL
  | STATUS_INVALID_JOG_COMMAND
  | STATUS_TRAVEL_EXCEEDED
  | STATUS_GCODE_UNSUPPORTED_COMMAND
  | STATUS_GCODE_MODAL_GROUP_VIOLATION
  | STATUS_GCODE_UNDEFINED_FEED_RATE
  | STATUS_GCODE_COMMAND_VALUE_NOT_INTEGER
  | STATUS_GCODE_AXIS_COMMAND_CONFLICT
  | STATUS_GCODE_WORD_REPEATED
  | STATUS_GCODE_NO_AXIS_WORDS
  | STATUS_GCODE_INVALID_LINE_NUMBER
  | STATUS_GCODE_VALUE_WORD_MISSING
  | STATUS_GCODE_UNSUPPORTED_COORD_SYS
  | STATUS_GCODE_G53_INVALID_MOTION_MODE
  | STATUS_GCODE_AXIS_WORDS_EXIST
  | STATUS_GCODE_NO_AXIS_WORDS_IN_PLANE
  | STATUS_GCODE_INVALID_TARGET
  | STATUS_GCODE_ARC_RADIUS_ERROR
  | STATUS_GCODE_UNUSED_WORDS

text \<open>The bit positions of \<^verbatim>\<open>command_words\<close> that the function sets or tests.\<close>

datatype modal_group =
    MODAL_GROUP_G0
  | MODAL_GROUP_G1
  | MODAL_GROUP_G3
  | MODAL_GROUP_G4
  | MODAL_GROUP_G5
  | MODAL_GROUP_G6
  | MODAL_GROUP_G7
  | MODAL_GROUP_G12
  | MODAL_GROUP_G13
  | MODAL_GROUP_M4

text \<open>The bit positions of \<^verbatim>\<open>value_words\<close> that the function sets, tests or clears.\<close>

datatype word_bit =
    WORD_F
  | WORD_I
  | WORD_J
  | WORD_K
  | WORD_L
  | WORD_N
  | WORD_P
  | WORD_R
  | WORD_S
  | WORD_X
  | WORD_Y
  | WORD_Z

datatype parser_flag =
    GC_PARSER_JOG_MOTION
  | GC_PARSER_ARC_IS_CLOCKWISE

datatype pl_cond_flag =
    PL_COND_FLAG_RAPID_MOTION
  | PL_COND_FLAG_INVERSE_TIME

record gc_modal_t =
  motion :: nat
  feed_rate_mode :: nat
  units :: nat
  distance :: nat
  coord_select :: nat
  program_flow :: nat

record gc_values_t =
  val_f :: real
  val_ijk :: "real list"
  val_l :: nat
  val_n :: int
  val_p :: real
  val_r :: real
  val_xyz :: "real list"

record parser_state_t =
  modal :: gc_modal_t
  coord_system :: "real list"
  coord_offset :: "real list"
  position :: "real list"
  feed_rate :: real
  line_number :: int

record parser_block_t =
  non_modal_command :: nat
  bmodal :: gc_modal_t
  bvalues :: gc_values_t

text \<open>
  \<^verbatim>\<open>gc_block\<close> together with the local variables of \<^verbatim>\<open>gc_execute_line\<close> that live across
  its steps. \<open>g10_coord_select\<close> is the local \<^verbatim>\<open>coord_select\<close>.
\<close>

record locals = parser_block_t +
  axis_command :: nat
  g10_coord_select :: nat
  axis_words :: "nat set"
  ijk_words :: "nat set"
  command_words :: "modal_group set"
  value_words :: "word_bit set"
  gc_parser_flags :: "parser_flag set"
  block_coord_system :: "real list"

record plan_line_data_t =
  pl_feed_rate :: real
  pl_condition :: "pl_cond_flag set"

text \<open>The calls that leave the parser, in the order they are made.\<close>

datatype call =
    Mc_line "real list" plan_line_data_t
  | Mc_arc "real list" plan_line_data_t "real list" "real list" real nat nat nat bool
  | Mc_dwell real
  | Settings_write_coord_data nat "real list"
  | Jog_execute plan_line_data_t "real list" real
  | System_flag_wco_change
  | Protocol_buffer_synchronize
  | Feed_hold
  | Report_program_end

text \<open>
  The state the function works on: \<^verbatim>\<open>gc_state\<close>, the coordinate data in EEPROM (\<open>None\<close>
  for an entry that \<^verbatim>\<open>settings_read_coord_data\<close> fails to read) and the calls made so far.
\<close>

record world =
  gc_state :: parser_state_t
  coord_data :: "nat \<Rightarrow> real list option"
  calls :: "call list"

text \<open>
  What the function reads and does not own. \<^verbatim>\<open>axis_0\<close>, \<^verbatim>\<open>axis_1\<close> and \<^verbatim>\<open>axis_linear\<close>
  are declared at line 77 without a value and assigned nowhere in the function: what they hold
  when the arc code reads them is not determined by the program, so it is an input of the
  model. \<open>check_mode\<close> is \<^verbatim>\<open>sys.state == STATE_CHECK_MODE\<close>; \<open>jog_execute_status\<close> is
  what \<^verbatim>\<open>jog_execute\<close> (jog.c, absent) returns.
\<close>

record environment =
  axis_0 :: nat
  axis_1 :: nat
  axis_linear :: nat
  check_mode :: bool
  jog_execute_status :: status

text \<open>A word of the line: its letter and what \<^verbatim>\<open>read_float\<close> made of the text after it.\<close>

type_synonym gword = "char \<times> real option"

record line_t =
  jog :: bool
  gwords :: "gword list"

subsection \<open>Conversions and helpers\<close>

text \<open>
  \<^verbatim>\<open>trunc\<close> and \<^verbatim>\<open>round\<close> of math.h (round half away from zero), and the conversions of
  their results to \<^verbatim>\<open>uint8_t\<close> and \<^verbatim>\<open>uint16_t\<close>, which keep the low bits.
\<close>

definition c_trunc :: "real \<Rightarrow> int" where
  "c_trunc v = (if 0 \<le> v then \<lfloor>v\<rfloor> else \<lceil>v\<rceil>)"

definition c_round :: "real \<Rightarrow> int" where
  "c_round v = (if 0 \<le> v then \<lfloor>v + 1 / 2\<rfloor> else \<lceil>v - 1 / 2\<rceil>)"

definition to_uint8 :: "int \<Rightarrow> nat" where
  "to_uint8 i = nat (i mod 256)"

definition to_uint16 :: "int \<Rightarrow> nat" where
  "to_uint16 i = nat (i mod 65536)"

text \<open>
  The conversion of \<^verbatim>\<open>trunc(value)\<close> to the \<^verbatim>\<open>int32_t\<close> of a line number (gcode.h,
  which declares the field, is absent; \<^verbatim>\<open>MAX_LINE_NUMBER\<close> needs more than 16 bits, and
  system.h uses \<^verbatim>\<open>int32_t\<close> for its counters). A value that fits is kept. C leaves the
  conversion of a value that does not fit undefined; the result taken here is the one the
  conversion instruction of x86 gives, the most negative integer.
\<close>

definition to_int32 :: "int \<Rightarrow> int" where
  "to_int32 i = (if - 2147483648 \<le> i \<and> i < 2147483648 then i else - 2147483648)"

text \<open>
  Modelled from the spec: nuts_bolts.c is absent. \<^verbatim>\<open>hypot_f\<close> is the distance the spec
  speaks of (centre to start, centre to target); \<^verbatim>\<open>isequal_position_vector\<close> is the
  spec's start == end.
\<close>

definition hypot_f :: "real \<Rightarrow> real \<Rightarrow> real" where
  "hypot_f x y = sqrt (x * x + y * y)"

definition isequal_position_vector :: "real list \<Rightarrow> real list \<Rightarrow> bool" where
  "isequal_position_vector a b = (a = b)"

text \<open>
  Modelled from the spec: settings.c is absent. A read returns the stored vector or fails; a
  write replaces the stored vector.
\<close>

definition settings_read_coord_data :: "world \<Rightarrow> nat \<Rightarrow> real list option" where
  "settings_read_coord_data w idx = coord_data w idx"

definition settings_write_coord_data :: "nat \<Rightarrow> real list \<Rightarrow> world \<Rightarrow> world" where
  "settings_write_coord_data idx v w =
     w\<lparr>coord_data := (coord_data w)(idx \<mapsto> v),
       calls := calls w @ [Settings_write_coord_data idx v]\<rparr>"

definition axis_indices :: "nat list" where
  "axis_indices = [0..<N_AXIS]"

definition zero_vector :: "real list" where
  "zero_vector = replicate N_AXIS 0"

subsection \<open>STEP 1: the parser block and the locals (lines 73 to 98)\<close>

definition init_locals :: "parser_state_t \<Rightarrow> bool \<Rightarrow> locals" where
  "init_locals st is_jog =
     (let m = (if is_jog
               then (modal st)\<lparr>motion := MOTION_MODE_LINEAR,
                               feed_rate_mode := FEED_RATE_MODE_UNITS_PER_MIN\<rparr>
               else modal st)
      in \<lparr>non_modal_command = 0,
          bmodal = m,
          bvalues = \<lparr>val_f = 0, val_ijk = zero_vector, val_l = 0, val_n = 0, val_p = 0,
                     val_r = 0, val_xyz = zero_vector\<rparr>,
          axis_command = AXIS_COMMAND_NONE,
          g10_coord_select = 0,
          axis_words = {},
          ijk_words = {},
          command_words = {},
          value_words = {},
          gc_parser_flags = (if is_jog then {GC_PARSER_JOG_MOTION} else {}),
          block_coord_system = zero_vector\<rparr>)"

subsection \<open>STEP 2: importing the words (lines 106 to 286)\<close>

text \<open>
  The \<^verbatim>\<open>switch(int_value)\<close> of a G word (lines 143 to 214): the bit of the modal group,
  the mantissa left over and the updated block, or the status of a \<^verbatim>\<open>FAIL\<close>.
\<close>

definition g_command :: "nat \<Rightarrow> nat \<Rightarrow> locals \<Rightarrow> status + (modal_group \<times> nat \<times> locals)" where
  "g_command int_value mantissa l =
     (if int_value \<in> {10, 28, 30, 92} \<and> mantissa = 0 \<and> axis_command l \<noteq> AXIS_COMMAND_NONE
      then Inl STATUS_GCODE_AXIS_COMMAND_CONFLICT
      else if int_value \<in> {10, 28, 30, 92, 4, 53} then
        (let l1 = (if int_value \<in> {10, 28, 30, 92} \<and> mantissa = 0
                   then l\<lparr>axis_command := AXIS_COMMAND_NON_MODAL\<rparr> else l);
             l2 = l1\<lparr>non_modal_command := int_value\<rparr>
         in if int_value = 28 \<or> int_value = 30 \<or> int_value = 92 then
              (if mantissa = 0 \<or> mantissa = 10
               then Inr (MODAL_GROUP_G0, 0,
                      l2\<lparr>non_modal_command := non_modal_command l2 + mantissa\<rparr>)
               else Inl STATUS_GCODE_UNSUPPORTED_COMMAND)
            else Inr (MODAL_GROUP_G0, mantissa, l2))
      else if int_value \<in> {0, 1, 2, 3, 38} \<and> axis_command l \<noteq> AXIS_COMMAND_NONE
      then Inl STATUS_GCODE_AXIS_COMMAND_CONFLICT
      else if int_value \<in> {0, 1, 2, 3, 38, 80} then
        (let l1 = (if int_value \<in> {0, 1, 2, 3, 38}
                   then l\<lparr>axis_command := AXIS_COMMAND_MOTION_MODE\<rparr> else l);
             l2 = l1\<lparr>bmodal := (bmodal l1)\<lparr>motion := int_value\<rparr>\<rparr>
         in if int_value = 38 then
              (if mantissa = 20 \<or> mantissa = 30 \<or> mantissa = 40 \<or> mantissa = 50
               then Inr (MODAL_GROUP_G1, 0,
                      l2\<lparr>bmodal := (bmodal l2)
                           \<lparr>motion := motion (bmodal l2) + (mantissa div 10 + 100)\<rparr>\<rparr>)
               else Inl STATUS_GCODE_UNSUPPORTED_COMMAND)
            else Inr (MODAL_GROUP_G1, mantissa, l2))
      else if int_value \<in> {90, 91} then
        (if mantissa = 0
         then Inr (MODAL_GROUP_G3, mantissa,
                l\<lparr>bmodal := (bmodal l)\<lparr>distance := int_value - 90\<rparr>\<rparr>)
         else if int_value = 90 \<or> mantissa \<noteq> 10
         then Inl STATUS_GCODE_UNSUPPORTED_COMMAND
         else Inr (MODAL_GROUP_G4, 0, l))
      else if int_value \<in> {93, 94} then
        Inr (MODAL_GROUP_G5, mantissa,
          l\<lparr>bmodal := (bmodal l)\<lparr>feed_rate_mode := 94 - int_value\<rparr>\<rparr>)
      else if int_value \<in> {20, 21} then
        Inr (MODAL_GROUP_G6, mantissa, l\<lparr>bmodal := (bmodal l)\<lparr>units := 21 - int_value\<rparr>\<rparr>)
      else if int_value = 40 then Inr (MODAL_GROUP_G7, mantissa, l)
      else if int_value \<in> {54, 55, 56, 57, 58, 59} then
        Inr (MODAL_GROUP_G12, mantissa,
          l\<lparr>bmodal := (bmodal l)\<lparr>coord_select := int_value - 54\<rparr>\<rparr>)
      else if int_value = 61 then
        (if mantissa = 0 then Inr (MODAL_GROUP_G13, mantissa, l)
         else Inl STATUS_GCODE_UNSUPPORTED_COMMAND)
      else Inl STATUS_GCODE_UNSUPPORTED_COMMAND)"

text \<open>The whole \<^verbatim>\<open>case 'G'\<close> (lines 141 to 220).\<close>

definition g_word :: "nat \<Rightarrow> nat \<Rightarrow> locals \<Rightarrow> status + locals" where
  "g_word int_value mantissa l =
     (case g_command int_value mantissa l of
        Inl e \<Rightarrow> Inl e
      | Inr (word_bit, mantissa', l') \<Rightarrow>
          if mantissa' > 0 then Inl STATUS_GCODE_COMMAND_VALUE_NOT_INTEGER
          else if word_bit \<in> command_words l' then Inl STATUS_GCODE_MODAL_GROUP_VIOLATION
          else Inr (l'\<lparr>command_words := insert word_bit (command_words l')\<rparr>))"

text \<open>\<^verbatim>\<open>case 'M'\<close> (lines 222 to 242).\<close>

definition m_word :: "nat \<Rightarrow> nat \<Rightarrow> locals \<Rightarrow> status + locals" where
  "m_word int_value mantissa l =
     (if mantissa > 0 then Inl STATUS_GCODE_COMMAND_VALUE_NOT_INTEGER
      else if int_value \<in> {0, 1, 2, 30} then
        (let l1 = (if int_value = 0
                   then l\<lparr>bmodal := (bmodal l)\<lparr>program_flow := PROGRAM_FLOW_PAUSED\<rparr>\<rparr>
                   else if int_value = 1 then l
                   else l\<lparr>bmodal := (bmodal l)\<lparr>program_flow := int_value\<rparr>\<rparr>)
         in if MODAL_GROUP_M4 \<in> command_words l1 then Inl STATUS_GCODE_MODAL_GROUP_VIOLATION
            else Inr (l1\<lparr>command_words := insert MODAL_GROUP_M4 (command_words l1)\<rparr>))
      else Inl STATUS_GCODE_UNSUPPORTED_COMMAND)"

text \<open>
  The \<^verbatim>\<open>switch(letter)\<close> of the remaining letters (lines 250 to 274): the bit of the word
  and the block with the value stored.
\<close>

definition value_command ::
  "char \<Rightarrow> real \<Rightarrow> nat \<Rightarrow> locals \<Rightarrow> status + (word_bit \<times> locals)" where
  "value_command letter v int_value l =
     (if letter = CHR ''F'' then Inr (WORD_F, l\<lparr>bvalues := (bvalues l)\<lparr>val_f := v\<rparr>\<rparr>)
      else if letter = CHR ''I'' then
        Inr (WORD_I, l\<lparr>bvalues := (bvalues l)\<lparr>val_ijk := (val_ijk (bvalues l))[X_AXIS := v]\<rparr>,
                       ijk_words := insert X_AXIS (ijk_words l)\<rparr>)
      else if letter = CHR ''J'' then
        Inr (WORD_J, l\<lparr>bvalues := (bvalues l)\<lparr>val_ijk := (val_ijk (bvalues l))[Y_AXIS := v]\<rparr>,
                       ijk_words := insert Y_AXIS (ijk_words l)\<rparr>)
      else if letter = CHR ''L'' then
        Inr (WORD_L, l\<lparr>bvalues := (bvalues l)\<lparr>val_l := int_value\<rparr>\<rparr>)
      else if letter = CHR ''N'' then
        Inr (WORD_N, l\<lparr>bvalues := (bvalues l)\<lparr>val_n := to_int32 (c_trunc v)\<rparr>\<rparr>)
      else if letter = CHR ''P'' then Inr (WORD_P, l\<lparr>bvalues := (bvalues l)\<lparr>val_p := v\<rparr>\<rparr>)
      else if letter = CHR ''R'' then Inr (WORD_R, l\<lparr>bvalues := (bvalues l)\<lparr>val_r := v\<rparr>\<rparr>)
      else if letter = CHR ''X'' then
        Inr (WORD_X, l\<lparr>bvalues := (bvalues l)\<lparr>val_xyz := (val_xyz (bvalues l))[X_AXIS := v]\<rparr>,
                       axis_words := insert X_AXIS (axis_words l)\<rparr>)
      else if letter = CHR ''Y'' then
        Inr (WORD_Y, l\<lparr>bvalues := (bvalues l)\<lparr>val_xyz := (val_xyz (bvalues l))[Y_AXIS := v]\<rparr>,
                       axis_words := insert Y_AXIS (axis_words l)\<rparr>)
      else Inl STATUS_GCODE_UNSUPPORTED_COMMAND)"

text \<open>The \<^verbatim>\<open>default\<close> case of the outer switch (lines 245 to 283).\<close>

definition value_word :: "char \<Rightarrow> real \<Rightarrow> nat \<Rightarrow> locals \<Rightarrow> status + locals" where
  "value_word letter v int_value l =
     (case value_command letter v int_value l of
        Inl e \<Rightarrow> Inl e
      | Inr (word_bit, l') \<Rightarrow>
          if word_bit \<in> value_words l' then Inl STATUS_GCODE_WORD_REPEATED
          else if word_bit \<in> {WORD_F, WORD_N, WORD_P, WORD_S} \<and> v < 0
          then Inl STATUS_NEGATIVE_VALUE
          else Inr (l'\<lparr>value_words := insert word_bit (value_words l')\<rparr>))"

text \<open>One turn of the \<^verbatim>\<open>while\<close> loop (lines 115 to 286).\<close>

definition import_word :: "gword \<Rightarrow> locals \<Rightarrow> status + locals" where
  "import_word wd l =
     (let letter = fst wd in
      if (of_char letter :: nat) < 65 \<or> (of_char letter :: nat) > 90
      then Inl STATUS_EXPECTED_COMMAND_LETTER
      else case snd wd of
        None \<Rightarrow> Inl STATUS_BAD_NUMBER_FORMAT
      | Some v \<Rightarrow>
          (let int_value = to_uint8 (c_trunc v);
               mantissa = to_uint16 (c_round (100 * (v - real int_value)))
           in if letter = CHR ''G'' then g_word int_value mantissa l
              else if letter = CHR ''M'' then m_word int_value mantissa l
              else value_word letter v int_value l))"

text \<open>The loop: it stops at the first word that fails.\<close>

fun import_words :: "gword list \<Rightarrow> locals \<Rightarrow> status + locals" where
  "import_words [] l = Inr l"
| "import_words (wd # wds) l =
     (case import_word wd l of Inl e \<Rightarrow> Inl e | Inr l' \<Rightarrow> import_words wds l')"

subsection \<open>STEP 3: error checks (lines 316 to 650)\<close>

text \<open>A check either fails with a status or hands the block on.\<close>

definition and_then :: "status + 'a \<Rightarrow> ('a \<Rightarrow> status + 'b) \<Rightarrow> status + 'b" where
  "and_then r k = (case r of Inl e \<Rightarrow> Inl e | Inr a \<Rightarrow> k a)"

text \<open>Lines 320 to 322: axis words without an axis command mean the current motion mode.\<close>

definition implicit_axis_command :: "locals \<Rightarrow> locals" where
  "implicit_axis_command l =
     (if axis_words l \<noteq> {} \<and> axis_command l = AXIS_COMMAND_NONE
      then l\<lparr>axis_command := AXIS_COMMAND_MOTION_MODE\<rparr> else l)"

text \<open>Lines 325 to 328.\<close>

definition check_line_number :: "locals \<Rightarrow> status + locals" where
  "check_line_number l =
     (if WORD_N \<in> value_words l \<and> val_n (bvalues l) > MAX_LINE_NUMBER
      then Inl STATUS_GCODE_INVALID_LINE_NUMBER else Inr l)"

text \<open>Lines 343 to 373: feed rate mode and feed rate.\<close>

definition check_feed_rate :: "parser_state_t \<Rightarrow> locals \<Rightarrow> status + locals" where
  "check_feed_rate st l =
     (if GC_PARSER_JOG_MOTION \<in> gc_parser_flags l then
        (if WORD_F \<notin> value_words l then Inl STATUS_GCODE_UNDEFINED_FEED_RATE else Inr l)
      else if feed_rate_mode (bmodal l) = FEED_RATE_MODE_INVERSE_TIME then
        (if axis_command l = AXIS_COMMAND_MOTION_MODE
            \<and> motion (bmodal l) \<noteq> MOTION_MODE_NONE \<and> motion (bmodal l) \<noteq> MOTION_MODE_SEEK
            \<and> WORD_F \<notin> value_words l
         then Inl STATUS_GCODE_UNDEFINED_FEED_RATE else Inr l)
      else if feed_rate_mode (modal st) = FEED_RATE_MODE_UNITS_PER_MIN
              \<and> WORD_F \<notin> value_words l
      then Inr (l\<lparr>bvalues := (bvalues l)\<lparr>val_f := feed_rate st\<rparr>\<rparr>)
      else Inr l)"

text \<open>Lines 377 to 380.\<close>

definition check_dwell :: "locals \<Rightarrow> status + locals" where
  "check_dwell l =
     (if non_modal_command l = NON_MODAL_DWELL then
        (if WORD_P \<notin> value_words l then Inl STATUS_GCODE_VALUE_WORD_MISSING
         else Inr (l\<lparr>value_words := value_words l - {WORD_P}\<rparr>))
      else Inr l)"

text \<open>Lines 387 to 394: the coordinate system of the block.\<close>

definition check_coord_select :: "world \<Rightarrow> locals \<Rightarrow> status + locals" where
  "check_coord_select w l =
     (let l1 = l\<lparr>block_coord_system := coord_system (gc_state w)\<rparr> in
      if MODAL_GROUP_G12 \<in> command_words l1 then
        (if coord_select (bmodal l1) > N_COORDINATE_SYSTEM
         then Inl STATUS_GCODE_UNSUPPORTED_COORD_SYS
         else if coord_select (modal (gc_state w)) \<noteq> coord_select (bmodal l1) then
           (case settings_read_coord_data w (coord_select (bmodal l1)) of
              None \<Rightarrow> Inl STATUS_SETTING_READ_FAIL
            | Some v \<Rightarrow> Inr (l1\<lparr>block_coord_system := v\<rparr>))
         else Inr l1)
      else Inr l1)"

text \<open>The loop of lines 430 to 442 over the coordinate data read into \<^verbatim>\<open>ijk\<close>.\<close>

definition g10_coord_data :: "parser_state_t \<Rightarrow> locals \<Rightarrow> real list \<Rightarrow> real list" where
  "g10_coord_data st l data =
     foldl (\<lambda>a idx.
        if idx \<in> axis_words l then
          (if val_l (bvalues l) = 20
           then a[idx := position st ! idx - coord_offset st ! idx - val_xyz (bvalues l) ! idx]
           else a[idx := val_xyz (bvalues l) ! idx])
        else a) data axis_indices"

text \<open>Lines 420 to 443: the coordinate system to change, read and recomputed.\<close>

definition g10_select :: "world \<Rightarrow> locals \<Rightarrow> nat \<Rightarrow> status + locals" where
  "g10_select w l cs =
     (let l1 = l\<lparr>value_words := value_words l - {WORD_L, WORD_P}\<rparr>;
          cs' = (if cs > 0 then cs - 1 else coord_select (bmodal l1))
      in case settings_read_coord_data w cs' of
           None \<Rightarrow> Inl STATUS_SETTING_READ_FAIL
         | Some data \<Rightarrow>
             Inr (l1\<lparr>g10_coord_select := cs',
                     bvalues := (bvalues l1)
                       \<lparr>val_ijk := g10_coord_data (gc_state w) l1 data\<rparr>\<rparr>))"

text \<open>Lines 407 to 443: \<^verbatim>\<open>case NON_MODAL_SET_COORDINATE_DATA\<close>.\<close>

definition check_g10 :: "world \<Rightarrow> locals \<Rightarrow> status + locals" where
  "check_g10 w l =
     (if axis_words l = {} then Inl STATUS_GCODE_NO_AXIS_WORDS
      else if value_words l \<inter> {WORD_P, WORD_L} = {} then Inl STATUS_GCODE_VALUE_WORD_MISSING
      else
        (let cs = to_uint8 (c_trunc (val_p (bvalues l))) in
         if cs > N_COORDINATE_SYSTEM then Inl STATUS_GCODE_UNSUPPORTED_COORD_SYS
         else if val_l (bvalues l) \<noteq> 20 then
           (if val_l (bvalues l) = 2 then
              (if WORD_R \<in> value_words l then Inl STATUS_GCODE_UNSUPPORTED_COMMAND
               else g10_select w l cs)
            else Inl STATUS_GCODE_UNSUPPORTED_COMMAND)
         else g10_select w l cs))"

text \<open>The loop of lines 451 to 466: the target position from the axis words.\<close>

definition target_position :: "parser_state_t \<Rightarrow> locals \<Rightarrow> real list" where
  "target_position st l =
     foldl (\<lambda>a idx.
        if idx \<in> axis_words l then
          (if non_modal_command l \<noteq> NON_MODAL_ABSOLUTE_OVERRIDE then
             (if distance (bmodal l) = DISTANCE_MODE_ABSOLUTE
              then a[idx := a ! idx + (block_coord_system l ! idx + coord_offset st ! idx)]
              else a[idx := a ! idx + position st ! idx])
           else a)
        else a[idx := position st ! idx]) (val_xyz (bvalues l)) axis_indices"

text \<open>Lines 445 to 479: the \<^verbatim>\<open>default\<close> case of the non-modal switch.\<close>

definition check_target :: "parser_state_t \<Rightarrow> locals \<Rightarrow> status + locals" where
  "check_target st l =
     (let l1 = (if axis_words l \<noteq> {}
                then l\<lparr>bvalues := (bvalues l)\<lparr>val_xyz := target_position st l\<rparr>\<rparr> else l)
      in if non_modal_command l1 = NON_MODAL_ABSOLUTE_OVERRIDE
            \<and> motion (bmodal l1) \<noteq> MOTION_MODE_SEEK \<and> motion (bmodal l1) \<noteq> MOTION_MODE_LINEAR
         then Inl STATUS_GCODE_G53_INVALID_MOTION_MODE
         else Inr l1)"

text \<open>Lines 406 to 479.\<close>

definition check_non_modal :: "world \<Rightarrow> locals \<Rightarrow> status + locals" where
  "check_non_modal w l =
     (if non_modal_command l = NON_MODAL_SET_COORDINATE_DATA then check_g10 w l
      else check_target (gc_state w) l)"

text \<open>
  Lines 526 to 614: an arc given by its radius. \<open>x\<close> and \<open>y\<close> are the deltas of
  lines 523 and 524.
\<close>

definition arc_radius_mode ::
  "environment \<Rightarrow> parser_state_t \<Rightarrow> real \<Rightarrow> real \<Rightarrow> locals \<Rightarrow> status + locals" where
  "arc_radius_mode env st x y l =
     (let l1 = l\<lparr>value_words := value_words l - {WORD_R}\<rparr> in
      if isequal_position_vector (position st) (val_xyz (bvalues l1))
      then Inl STATUS_GCODE_INVALID_TARGET
      else
        (let r = val_r (bvalues l1);
             h0 = 4 * r * r - x * x - y * y
         in if h0 < 0 then Inl STATUS_GCODE_ARC_RADIUS_ERROR
            else
              (let h1 = - sqrt h0 / hypot_f x y;
                   h2 = (if motion (bmodal l1) = MOTION_MODE_CCW_ARC then - h1 else h1);
                   h3 = (if r < 0 then - h2 else h2);
                   r' = (if r < 0 then - r else r);
                   ijk1 = (val_ijk (bvalues l1))[axis_0 env := 0.5 * (x - y * h3)];
                   ijk2 = ijk1[axis_1 env := 0.5 * (y + x * h3)]
               in Inr (l1\<lparr>bvalues := (bvalues l1)\<lparr>val_r := r', val_ijk := ijk2\<rparr>\<rparr>))))"

text \<open>Lines 616 to 633: an arc given by the offsets of its centre.\<close>

definition arc_offset_mode :: "environment \<Rightarrow> real \<Rightarrow> real \<Rightarrow> locals \<Rightarrow> status + locals" where
  "arc_offset_mode env x y l =
     (let l1 = l\<lparr>value_words := value_words l - {WORD_I, WORD_J, WORD_K}\<rparr>;
          x' = x - val_ijk (bvalues l1) ! axis_0 env;
          y' = y - val_ijk (bvalues l1) ! axis_1 env;
          target_r = hypot_f x' y';
          r = hypot_f (val_ijk (bvalues l1) ! axis_0 env) (val_ijk (bvalues l1) ! axis_1 env);
          l2 = l1\<lparr>bvalues := (bvalues l1)\<lparr>val_r := r\<rparr>\<rparr>;
          delta_r = \<bar>target_r - r\<bar>
      in if delta_r > 0.005 then
           (if delta_r > 0.5 then Inl STATUS_GCODE_INVALID_TARGET
            else if delta_r > 0.001 * r then Inl STATUS_GCODE_INVALID_TARGET
            else Inr l2)
         else Inr l2)"

text \<open>Lines 518 to 633: the checks of \<^verbatim>\<open>MOTION_MODE_CW_ARC\<close> and \<^verbatim>\<open>MOTION_MODE_CCW_ARC\<close>.\<close>

definition check_arc :: "environment \<Rightarrow> parser_state_t \<Rightarrow> locals \<Rightarrow> status + locals" where
  "check_arc env st l =
     (if axis_words l = {} then Inl STATUS_GCODE_NO_AXIS_WORDS
      else if axis_words l \<inter> {axis_0 env, axis_1 env} = {}
      then Inl STATUS_GCODE_NO_AXIS_WORDS_IN_PLANE
      else
        (let x = val_xyz (bvalues l) ! axis_0 env - position st ! axis_0 env;
             y = val_xyz (bvalues l) ! axis_1 env - position st ! axis_1 env
         in if WORD_R \<in> value_words l then arc_radius_mode env st x y l
            else arc_offset_mode env x y l))"

text \<open>Lines 482 to 637: the motion modes.\<close>

definition check_motion_modes :: "environment \<Rightarrow> parser_state_t \<Rightarrow> locals \<Rightarrow> status + locals" where
  "check_motion_modes env st l =
     (if motion (bmodal l) = MOTION_MODE_NONE then
        (if axis_words l \<noteq> {} then Inl STATUS_GCODE_AXIS_WORDS_EXIST else Inr l)
      else if axis_command l = AXIS_COMMAND_MOTION_MODE then
        (if motion (bmodal l) = MOTION_MODE_SEEK then
           Inr (if axis_words l = {} then l\<lparr>axis_command := AXIS_COMMAND_NONE\<rparr> else l)
         else if val_f (bvalues l) = 0 then Inl STATUS_GCODE_UNDEFINED_FEED_RATE
         else if motion (bmodal l) = MOTION_MODE_LINEAR then
           Inr (if axis_words l = {} then l\<lparr>axis_command := AXIS_COMMAND_NONE\<rparr> else l)
         else if motion (bmodal l) = MOTION_MODE_CW_ARC then
           check_arc env st
             (l\<lparr>gc_parser_flags := insert GC_PARSER_ARC_IS_CLOCKWISE (gc_parser_flags l)\<rparr>)
         else if motion (bmodal l) = MOTION_MODE_CCW_ARC then check_arc env st l
         else Inr l)
      else Inr l)"

text \<open>Lines 643 to 650: words that no command of the block has used.\<close>

definition check_unused_words :: "locals \<Rightarrow> status + locals" where
  "check_unused_words l =
     (let vw1 = (if GC_PARSER_JOG_MOTION \<in> gc_parser_flags l
                 then value_words l - {WORD_N, WORD_F}
                 else value_words l - {WORD_N, WORD_F, WORD_S});
          vw2 = (if axis_command l \<noteq> AXIS_COMMAND_NONE
                 then vw1 - {WORD_X, WORD_Y, WORD_Z} else vw1)
      in if vw2 \<noteq> {} then Inl STATUS_GCODE_UNUSED_WORDS
         else Inr (l\<lparr>value_words := vw2\<rparr>))"

text \<open>The checks that come before the motion modes (lines 320 to 479), in their order.\<close>

definition check_before_motion :: "world \<Rightarrow> locals \<Rightarrow> status + locals" where
  "check_before_motion w l =
     and_then (check_line_number (implicit_axis_command l)) (\<lambda>l1.
     and_then (check_feed_rate (gc_state w) l1) (\<lambda>l2.
     and_then (check_dwell l2) (\<lambda>l3.
     and_then (check_coord_select w l3) (\<lambda>l4.
     check_non_modal w l4))))"

text \<open>All of STEP 3.\<close>

definition error_check :: "environment \<Rightarrow> world \<Rightarrow> locals \<Rightarrow> status + locals" where
  "error_check env w l =
     and_then (check_before_motion w l) (\<lambda>l1.
     and_then (check_motion_modes env (gc_state w) l1) (\<lambda>l2.
     check_unused_words l2))"

subsection \<open>STEP 4: execution (lines 659 to 796)\<close>

text \<open>Lines 667 to 676: a jog line.\<close>

definition execute_jog :: "environment \<Rightarrow> locals \<Rightarrow> world \<Rightarrow> status \<times> world" where
  "execute_jog env l w =
     (if command_words l - {MODAL_GROUP_G3, MODAL_GROUP_G6, MODAL_GROUP_G0} \<noteq> {}
      then (STATUS_INVALID_JOG_COMMAND, w)
      else if non_modal_command l \<noteq> NON_MODAL_ABSOLUTE_OVERRIDE
              \<and> non_modal_command l \<noteq> NON_MODAL_NO_ACTION
      then (STATUS_INVALID_JOG_COMMAND, w)
      else
        (let w1 = w\<lparr>calls := calls w @
                     [Jog_execute \<lparr>pl_feed_rate = 0, pl_condition = {}\<rparr>
                        (val_xyz (bvalues l)) (val_f (bvalues l))]\<rparr>;
             status = jog_execute_status env
         in if status = STATUS_OK
            then (status, w1\<lparr>gc_state := (gc_state w1)\<lparr>position := val_xyz (bvalues l)\<rparr>\<rparr>)
            else (status, w1)))"

text \<open>
  Lines 680 to 712: line number, feed rate mode, feed rate, dwell, units, coordinate system
  and distance mode. The planner data travels with the world.
\<close>

definition execute_modes :: "locals \<Rightarrow> world \<Rightarrow> world \<times> plan_line_data_t" where
  "execute_modes l w =
     (let st1 = (gc_state w)\<lparr>line_number := val_n (bvalues l)\<rparr>;
          st2 = st1\<lparr>modal := (modal st1)\<lparr>feed_rate_mode := feed_rate_mode (bmodal l)\<rparr>\<rparr>;
          pl1 = \<lparr>pl_feed_rate = 0,
                 pl_condition = (if feed_rate_mode (modal st2) \<noteq> 0
                                 then {PL_COND_FLAG_INVERSE_TIME} else {})\<rparr>;
          st3 = st2\<lparr>feed_rate := val_f (bvalues l)\<rparr>;
          pl2 = pl1\<lparr>pl_feed_rate := feed_rate st3\<rparr>;
          cs1 = (if non_modal_command l = NON_MODAL_DWELL
                 then calls w @ [Mc_dwell (val_p (bvalues l))] else calls w);
          st4 = st3\<lparr>modal := (modal st3)\<lparr>units := units (bmodal l)\<rparr>\<rparr>;
          changed = (coord_select (modal st4) \<noteq> coord_select (bmodal l));
          st5 = (if changed
                 then st4\<lparr>modal := (modal st4)\<lparr>coord_select := coord_select (bmodal l)\<rparr>,
                          coord_system := block_coord_system l\<rparr>
                 else st4);
          cs2 = (if changed then cs1 @ [System_flag_wco_change] else cs1);
          st6 = st5\<lparr>modal := (modal st5)\<lparr>distance := distance (bmodal l)\<rparr>\<rparr>
      in (w\<lparr>gc_state := st6, calls := cs2\<rparr>, pl2))"

text \<open>Lines 717 to 726: G10 writes the coordinate data.\<close>

definition execute_non_modal :: "locals \<Rightarrow> world \<Rightarrow> world" where
  "execute_non_modal l w =
     (if non_modal_command l = NON_MODAL_SET_COORDINATE_DATA then
        (let w1 = settings_write_coord_data (g10_coord_select l) (val_ijk (bvalues l)) w in
         if coord_select (modal (gc_state w1)) = g10_coord_select l
         then w1\<lparr>gc_state := (gc_state w1)\<lparr>coord_system := val_ijk (bvalues l)\<rparr>,
                 calls := calls w1 @ [System_flag_wco_change]\<rparr>
         else w1)
      else w)"

text \<open>Lines 732 to 755: the motion.\<close>

definition execute_motion ::
  "environment \<Rightarrow> locals \<Rightarrow> plan_line_data_t \<Rightarrow> world \<Rightarrow> world" where
  "execute_motion env l pl w =
     (let st1 = (gc_state w)\<lparr>modal := (modal (gc_state w))\<lparr>motion := motion (bmodal l)\<rparr>\<rparr>;
          w1 = w\<lparr>gc_state := st1\<rparr>
      in if motion (modal st1) \<noteq> MOTION_MODE_NONE
            \<and> axis_command l = AXIS_COMMAND_MOTION_MODE then
           (let cs = (if motion (modal st1) = MOTION_MODE_LINEAR
                      then [Mc_line (val_xyz (bvalues l)) pl]
                      else if motion (modal st1) = MOTION_MODE_SEEK
                      then [Mc_line (val_xyz (bvalues l))
                              (pl\<lparr>pl_condition :=
                                    insert PL_COND_FLAG_RAPID_MOTION (pl_condition pl)\<rparr>)]
                      else if motion (modal st1) = MOTION_MODE_CW_ARC
                              \<or> motion (modal st1) = MOTION_MODE_CCW_ARC
                      then [Mc_arc (val_xyz (bvalues l)) pl (position st1)
                              (val_ijk (bvalues l)) (val_r (bvalues l))
                              (axis_0 env) (axis_1 env) (axis_linear env)
                              (GC_PARSER_ARC_IS_CLOCKWISE \<in> gc_parser_flags l)]
                      else [])
            in w1\<lparr>gc_state := st1\<lparr>position := val_xyz (bvalues l)\<rparr>,
                   calls := calls w1 @ cs\<rparr>)
         else w1)"

text \<open>
  Lines 760 to 796: program flow. The \<^verbatim>\<open>FAIL\<close> of line 786 returns with \<^verbatim>\<open>gc_state\<close>
  as the lines before it have left it.
\<close>

definition execute_program_flow :: "environment \<Rightarrow> locals \<Rightarrow> world \<Rightarrow> status \<times> world" where
  "execute_program_flow env l w =
     (let st1 = (gc_state w)
                  \<lparr>modal := (modal (gc_state w))\<lparr>program_flow := program_flow (bmodal l)\<rparr>\<rparr>;
          w1 = w\<lparr>gc_state := st1\<rparr>;
          running = (\<lambda>v. v\<lparr>gc_state := (gc_state v)
                       \<lparr>modal := (modal (gc_state v))\<lparr>program_flow := PROGRAM_FLOW_RUNNING\<rparr>\<rparr>\<rparr>)
      in if program_flow (modal st1) \<noteq> 0 then
           (let w2 = w1\<lparr>calls := calls w1 @ [Protocol_buffer_synchronize]\<rparr> in
            if program_flow (modal st1) = PROGRAM_FLOW_PAUSED then
              (STATUS_OK,
               running (if check_mode env then w2 else w2\<lparr>calls := calls w2 @ [Feed_hold]\<rparr>))
            else
              (let st2 = st1\<lparr>modal := (modal st1)
                             \<lparr>motion := MOTION_MODE_LINEAR,
                              distance := DISTANCE_MODE_ABSOLUTE,
                              feed_rate_mode := FEED_RATE_MODE_UNITS_PER_MIN,
                              coord_select := 0\<rparr>\<rparr>;
                   w3 = w2\<lparr>gc_state := st2\<rparr>
               in if check_mode env
                  then (STATUS_OK, running (w3\<lparr>calls := calls w3 @ [Report_program_end]\<rparr>))
                  else
                    (case settings_read_coord_data w3 (coord_select (modal st2)) of
                       None \<Rightarrow> (STATUS_SETTING_READ_FAIL, w3)
                     | Some v \<Rightarrow>
                         (STATUS_OK,
                          running (w3\<lparr>gc_state := st2\<lparr>coord_system := v\<rparr>,
                                      calls := calls w3 @
                                        [System_flag_wco_change, Report_program_end]\<rparr>)))))
         else (STATUS_OK, w1))"

text \<open>Lines 678 to 796: a block that is not a jog.\<close>

definition execute_block :: "environment \<Rightarrow> locals \<Rightarrow> world \<Rightarrow> status \<times> world" where
  "execute_block env l w =
     (let (w1, pl) = execute_modes l w;
          w2 = execute_non_modal l w1;
          w3 = execute_motion env l pl w2
      in execute_program_flow env l w3)"

subsection \<open>The function\<close>

definition gc_execute_line :: "environment \<Rightarrow> world \<Rightarrow> line_t \<Rightarrow> status \<times> world" where
  "gc_execute_line env w line =
     (case import_words (gwords line) (init_locals (gc_state w) (jog line)) of
        Inl e \<Rightarrow> (e, w)
      | Inr l1 \<Rightarrow>
          (case error_check env w l1 of
             Inl e \<Rightarrow> (e, w)
           | Inr l2 \<Rightarrow>
               if GC_PARSER_JOG_MOTION \<in> gc_parser_flags l2 then execute_jog env l2 w
               else execute_block env l2 w))"

text \<open>
  \<^verbatim>\<open>gc_init\<close> (lines 40 to 48): everything zero, then the coordinate system of index 0
  read from EEPROM.
\<close>

definition gc_init :: "world \<Rightarrow> world" where
  "gc_init w =
     w\<lparr>gc_state :=
         \<lparr>modal = \<lparr>motion = 0, feed_rate_mode = 0, units = 0, distance = 0,
                   coord_select = 0, program_flow = 0\<rparr>,
          coord_system = (case settings_read_coord_data w 0 of
                            Some v \<Rightarrow> v | None \<Rightarrow> zero_vector),
          coord_offset = zero_vector,
          position = zero_vector,
          feed_rate = 0,
          line_number = 0\<rparr>\<rparr>"

subsection \<open>Words, blocks and inputs that the statements speak of\<close>

definition word :: "char \<Rightarrow> real \<Rightarrow> gword" where
  "word c v = (c, Some v)"

text \<open>A normal block (no \<^verbatim>\<open>$J=\<close> in front) made of the given words.\<close>

definition block :: "gword list \<Rightarrow> line_t" where
  "block ws = \<lparr>jog = False, gwords = ws\<rparr>"

text \<open>
  The G and M codes that the switches of STEP 2 accept, each with the modal group bit the
  source gives it.
\<close>

definition recognized_codes :: "(gword \<times> modal_group) list" where
  "recognized_codes =
     [(word (CHR ''G'') 4, MODAL_GROUP_G0), (word (CHR ''G'') 10, MODAL_GROUP_G0),
      (word (CHR ''G'') 28, MODAL_GROUP_G0), (word (CHR ''G'') 28.1, MODAL_GROUP_G0),
      (word (CHR ''G'') 30, MODAL_GROUP_G0), (word (CHR ''G'') 30.1, MODAL_GROUP_G0),
      (word (CHR ''G'') 53, MODAL_GROUP_G0), (word (CHR ''G'') 92, MODAL_GROUP_G0),
      (word (CHR ''G'') 92.1, MODAL_GROUP_G0),
      (word (CHR ''G'') 0, MODAL_GROUP_G1), (word (CHR ''G'') 1, MODAL_GROUP_G1),
      (word (CHR ''G'') 2, MODAL_GROUP_G1), (word (CHR ''G'') 3, MODAL_GROUP_G1),
      (word (CHR ''G'') 38.2, MODAL_GROUP_G1), (word (CHR ''G'') 38.3, MODAL_GROUP_G1),
      (word (CHR ''G'') 38.4, MODAL_GROUP_G1), (word (CHR ''G'') 38.5, MODAL_GROUP_G1),
      (word (CHR ''G'') 80, MODAL_GROUP_G1),
      (word (CHR ''G'') 90, MODAL_GROUP_G3), (word (CHR ''G'') 91, MODAL_GROUP_G3),
      (word (CHR ''G'') 91.1, MODAL_GROUP_G4),
      (word (CHR ''G'') 93, MODAL_GROUP_G5), (word (CHR ''G'') 94, MODAL_GROUP_G5),
      (word (CHR ''G'') 20, MODAL_GROUP_G6), (word (CHR ''G'') 21, MODAL_GROUP_G6),
      (word (CHR ''G'') 40, MODAL_GROUP_G7),
      (word (CHR ''G'') 54, MODAL_GROUP_G12), (word (CHR ''G'') 55, MODAL_GROUP_G12),
      (word (CHR ''G'') 56, MODAL_GROUP_G12), (word (CHR ''G'') 57, MODAL_GROUP_G12),
      (word (CHR ''G'') 58, MODAL_GROUP_G12), (word (CHR ''G'') 59, MODAL_GROUP_G12),
      (word (CHR ''G'') 61, MODAL_GROUP_G13),
      (word (CHR ''M'') 0, MODAL_GROUP_M4), (word (CHR ''M'') 1, MODAL_GROUP_M4),
      (word (CHR ''M'') 2, MODAL_GROUP_M4), (word (CHR ''M'') 30, MODAL_GROUP_M4)]"

text \<open>The codes of line 144 in integer form, and the codes of line 161.\<close>

definition non_modal_axis_codes :: "gword list" where
  "non_modal_axis_codes =
     [word (CHR ''G'') 10, word (CHR ''G'') 28, word (CHR ''G'') 30, word (CHR ''G'') 92]"

definition motion_codes :: "gword list" where
  "motion_codes =
     [word (CHR ''G'') 0, word (CHR ''G'') 1, word (CHR ''G'') 2, word (CHR ''G'') 3,
      word (CHR ''G'') 38.2, word (CHR ''G'') 38.3, word (CHR ''G'') 38.4,
      word (CHR ''G'') 38.5]"

text \<open>The bit of \<^verbatim>\<open>value_words\<close> that lines 255 to 269 give a letter.\<close>

definition letter_bit :: "char \<Rightarrow> word_bit option" where
  "letter_bit c =
     (if c = CHR ''F'' then Some WORD_F
      else if c = CHR ''I'' then Some WORD_I
      else if c = CHR ''J'' then Some WORD_J
      else if c = CHR ''L'' then Some WORD_L
      else if c = CHR ''N'' then Some WORD_N
      else if c = CHR ''P'' then Some WORD_P
      else if c = CHR ''R'' then Some WORD_R
      else if c = CHR ''X'' then Some WORD_X
      else if c = CHR ''Y'' then Some WORD_Y
      else None)"

text \<open>
  On which side of the chord from the current position (the origin) to the target \<open>(x, y)\<close>
  the point \<open>(i, j)\<close> lies: positive to the left of the direction of travel, negative to the
  right, zero on the chord.
\<close>

definition chord_side :: "real \<Rightarrow> real \<Rightarrow> real \<Rightarrow> real \<Rightarrow> real" where
  "chord_side x y i j = x * (j - y / 2) - y * (i - x / 2)"

text \<open>The parser state that the \<^verbatim>\<open>memset\<close> of \<^verbatim>\<open>gc_init\<close> leaves.\<close>

definition blank_state :: parser_state_t where
  "blank_state =
     \<lparr>modal = \<lparr>motion = 0, feed_rate_mode = 0, units = 0, distance = 0,
               coord_select = 0, program_flow = 0\<rparr>,
      coord_system = [0, 0], coord_offset = [0, 0], position = [0, 0],
      feed_rate = 0, line_number = 0\<rparr>"

text \<open>A world whose EEPROM coordinate data cannot be read, and one where all of it is zero.\<close>

definition unreadable_world :: world where
  "unreadable_world = \<lparr>gc_state = blank_state, coord_data = (\<lambda>idx. None), calls = []\<rparr>"

definition stored_world :: world where
  "stored_world = \<lparr>gc_state = blank_state, coord_data = (\<lambda>idx. Some [0, 0]), calls = []\<rparr>"

text \<open>An environment in which the unassigned axis locals happen to hold X, Y and 2.\<close>

definition plain_env :: environment where
  "plain_env = \<lparr>axis_0 = X_AXIS, axis_1 = Y_AXIS, axis_linear = 2, check_mode = False,
                 jog_execute_status = STATUS_OK\<rparr>"

section \<open>Properties\<close>

subsection \<open>Evaluation and basic facts\<close>

lemma axis_indices_eq: "axis_indices = [0, 1]"
  by (simp add: axis_indices_def N_AXIS_def upt_rec)

lemma zero_vector_eq: "zero_vector = [0, 0]"
  by (simp add: zero_vector_def N_AXIS_def numeral_2_eq_2)

lemmas gc_consts = MAX_LINE_NUMBER_def AXIS_COMMAND_NONE_def AXIS_COMMAND_NON_MODAL_def
  AXIS_COMMAND_MOTION_MODE_def X_AXIS_def Y_AXIS_def N_COORDINATE_SYSTEM_def
  NON_MODAL_NO_ACTION_def NON_MODAL_DWELL_def NON_MODAL_SET_COORDINATE_DATA_def
  NON_MODAL_ABSOLUTE_OVERRIDE_def MOTION_MODE_SEEK_def MOTION_MODE_LINEAR_def
  MOTION_MODE_CW_ARC_def MOTION_MODE_CCW_ARC_def MOTION_MODE_NONE_def
  FEED_RATE_MODE_UNITS_PER_MIN_def FEED_RATE_MODE_INVERSE_TIME_def DISTANCE_MODE_ABSOLUTE_def
  PROGRAM_FLOW_RUNNING_def PROGRAM_FLOW_PAUSED_def

lemmas gc_import = init_locals_def import_word_def g_word_def g_command_def m_word_def
  value_word_def value_command_def to_uint8_def to_uint16_def to_int32_def c_trunc_def c_round_def
  zero_vector_eq

lemmas gc_checks = and_then_def implicit_axis_command_def check_line_number_def
  check_feed_rate_def check_dwell_def check_coord_select_def g10_coord_data_def g10_select_def
  check_g10_def target_position_def check_target_def check_non_modal_def arc_radius_mode_def
  arc_offset_mode_def check_arc_def check_motion_modes_def check_unused_words_def
  check_before_motion_def error_check_def settings_read_coord_data_def
  isequal_position_vector_def hypot_f_def axis_indices_eq

lemmas gc_exec = execute_jog_def execute_modes_def execute_non_modal_def execute_motion_def
  execute_program_flow_def execute_block_def settings_write_coord_data_def

lemmas gc_inputs = word_def block_def blank_state_def unreadable_world_def stored_world_def
  plain_env_def

lemmas gc_eval = gc_consts gc_import gc_checks gc_exec gc_inputs gc_execute_line_def
  gc_init_def Let_def insert_Diff_if

text \<open>The loop over the words, and what a word leaves behind.\<close>

lemma import_words_append:
  "import_words (a @ b) l = and_then (import_words a l) (import_words b)"
  by (induction a arbitrary: l) (auto simp: and_then_def split: sum.splits)

lemma import_words_preserve:
  assumes step: "\<And>x k k'. import_word x k = Inr k' \<Longrightarrow> P k \<Longrightarrow> P k'"
  shows "import_words ws l = Inr l' \<Longrightarrow> P l \<Longrightarrow> P l'"
proof (induction ws arbitrary: l)
  case Nil
  then show ?case by simp
next
  case (Cons x xs)
  from Cons.prems(1) obtain k where k: "import_word x l = Inr k" and rest: "import_words xs k = Inr l'"
    by (auto split: sum.splits)
  from step [OF k Cons.prems(2)] rest show ?case by (rule Cons.IH [rotated])
qed

lemma import_words_establish:
  assumes est: "\<And>k k'. import_word wd k = Inr k' \<Longrightarrow> P k'"
    and step: "\<And>x k k'. import_word x k = Inr k' \<Longrightarrow> P k \<Longrightarrow> P k'"
  shows "import_words ws l = Inr l' \<Longrightarrow> wd \<in> set ws \<Longrightarrow> P l'"
proof (induction ws arbitrary: l)
  case Nil
  then show ?case by simp
next
  case (Cons x xs)
  from Cons.prems(1) obtain k where k: "import_word x l = Inr k" and rest: "import_words xs k = Inr l'"
    by (auto split: sum.splits)
  show ?case
  proof (cases "wd \<in> set xs")
    case True
    with rest show ?thesis by (rule Cons.IH)
  next
    case False
    with Cons.prems(2) have "x = wd" by simp
    with k have "P k" by (auto intro: est)
    with rest show ?thesis by (auto intro: import_words_preserve [where P = P] step)
  qed
qed

text \<open>A block that fails in the middle of its words.\<close>

lemma gc_execute_line_word_fails:
  assumes "gwords line = pre @ wd # post"
    and "import_words pre (init_locals (gc_state w) (jog line)) = Inr l"
    and "import_word wd l = Inl e"
  shows "gc_execute_line env w line = (e, w)"
  using assms by (simp add: gc_execute_line_def import_words_append and_then_def)

lemma import_G: "import_word (CHR ''G'', Some v) l =
    g_word (to_uint8 (c_trunc v)) (to_uint16 (c_round (100 * (v - real (to_uint8 (c_trunc v)))))) l"
  by (simp add: import_word_def Let_def)

lemma import_M: "import_word (CHR ''M'', Some v) l =
    m_word (to_uint8 (c_trunc v)) (to_uint16 (c_round (100 * (v - real (to_uint8 (c_trunc v)))))) l"
  by (simp add: import_word_def Let_def)

lemmas conv_defs = to_uint8_def to_uint16_def c_trunc_def c_round_def

text \<open>What a word that is imported leaves untouched.\<close>

lemma g_command_frame_case:
  "(case g_command iv m k of Inl e \<Rightarrow> True | Inr r \<Rightarrow>
     value_words (snd (snd r)) = value_words k \<and> command_words (snd (snd r)) = command_words k
     \<and> bvalues (snd (snd r)) = bvalues k \<and> axis_words (snd (snd r)) = axis_words k
     \<and> gc_parser_flags (snd (snd r)) = gc_parser_flags k)"
  by (simp add: g_command_def Let_def)

lemma g_word_frame_case:
  "(case g_word iv m k of Inl e \<Rightarrow> True | Inr k' \<Rightarrow>
     value_words k' = value_words k \<and> bvalues k' = bvalues k \<and> axis_words k' = axis_words k
     \<and> gc_parser_flags k' = gc_parser_flags k)"
  using g_command_frame_case [where iv = iv and m = m and k = k]
  by (auto simp: g_word_def split: sum.splits prod.splits)

lemma m_word_frame_case:
  "(case m_word iv m k of Inl e \<Rightarrow> True | Inr k' \<Rightarrow>
     value_words k' = value_words k \<and> bvalues k' = bvalues k \<and> axis_words k' = axis_words k
     \<and> gc_parser_flags k' = gc_parser_flags k \<and> axis_command k' = axis_command k)"
  by (simp add: m_word_def Let_def)

lemma value_command_frame_case:
  "(case value_command c v iv k of Inl e \<Rightarrow> True | Inr r \<Rightarrow>
     letter_bit c = Some (fst r) \<and> value_words (snd r) = value_words k
     \<and> command_words (snd r) = command_words k
     \<and> axis_command (snd r) = axis_command k \<and> bmodal (snd r) = bmodal k
     \<and> gc_parser_flags (snd r) = gc_parser_flags k
     \<and> non_modal_command (snd r) = non_modal_command k)"
  by (simp add: value_command_def letter_bit_def)

lemma value_word_frame_case:
  "(case value_word c v iv k of Inl e \<Rightarrow> True | Inr k' \<Rightarrow>
     (\<exists>b. letter_bit c = Some b \<and> b \<notin> value_words k \<and> value_words k' = insert b (value_words k))
     \<and> command_words k' = command_words k
     \<and> axis_command k' = axis_command k \<and> bmodal k' = bmodal k
     \<and> gc_parser_flags k' = gc_parser_flags k \<and> non_modal_command k' = non_modal_command k)"
  using value_command_frame_case [where c = c and v = v and iv = iv and k = k]
  by (auto simp: value_word_def split: sum.splits prod.splits)


lemma import_word_frame_case:
  "(case import_word x k of Inl e \<Rightarrow> True | Inr k' \<Rightarrow>
     value_words k' = value_words k \<union> (case letter_bit (fst x) of Some b \<Rightarrow> {b} | None \<Rightarrow> {}))"
proof (cases "snd x")
  case None
  then show ?thesis by (simp add: import_word_def Let_def)
next
  case (Some v)
  have G: "letter_bit (CHR ''G'') = None" and M: "letter_bit (CHR ''M'') = None"
    by (simp_all add: letter_bit_def)
  show ?thesis
    using Some G M
      g_word_frame_case [where k = k and iv = "to_uint8 (c_trunc v)"
        and m = "to_uint16 (c_round (100 * (v - real (to_uint8 (c_trunc v)))))"]
      m_word_frame_case [where k = k and iv = "to_uint8 (c_trunc v)"
        and m = "to_uint16 (c_round (100 * (v - real (to_uint8 (c_trunc v)))))"]
      value_word_frame_case [where k = k and c = "fst x" and v = v and iv = "to_uint8 (c_trunc v)"]
    by (auto simp: import_word_def Let_def split: sum.splits)
qed

lemma value_words_step:
  "import_word x k = Inr k' \<Longrightarrow>
   value_words k' = value_words k \<union> (case letter_bit (fst x) of Some b \<Rightarrow> {b} | None \<Rightarrow> {})"
  using import_word_frame_case [where x = x and k = k] by simp

text \<open>The statuses with which each check and each part of STEP 4 can return.\<close>

lemma and_then_Inr: "and_then (Inr a) k = k a"
  by (simp add: and_then_def)

lemma check_line_number_status:
  "(case check_line_number l of
      Inl e \<Rightarrow> e = STATUS_GCODE_INVALID_LINE_NUMBER \<and> WORD_N \<in> value_words l
                 \<and> MAX_LINE_NUMBER < val_n (bvalues l)
    | Inr l' \<Rightarrow> l' = l \<and> (WORD_N \<in> value_words l \<longrightarrow> val_n (bvalues l) \<le> MAX_LINE_NUMBER))"
  by (auto simp: check_line_number_def)

lemma check_feed_rate_status:
  "(case check_feed_rate st l of Inl e \<Rightarrow> e = STATUS_GCODE_UNDEFINED_FEED_RATE | Inr l' \<Rightarrow> True)"
  by (simp add: check_feed_rate_def)

lemma check_dwell_status:
  "(case check_dwell l of Inl e \<Rightarrow> e = STATUS_GCODE_VALUE_WORD_MISSING | Inr l' \<Rightarrow> True)"
  by (simp add: check_dwell_def)

lemma check_coord_select_status:
  "(case check_coord_select w l of
      Inl e \<Rightarrow> e \<in> {STATUS_GCODE_UNSUPPORTED_COORD_SYS, STATUS_SETTING_READ_FAIL}
    | Inr l' \<Rightarrow> True)"
  by (simp add: check_coord_select_def Let_def split: option.split)

lemma check_non_modal_status:
  "(case check_non_modal w l of
      Inl e \<Rightarrow> e \<in> {STATUS_GCODE_NO_AXIS_WORDS, STATUS_GCODE_VALUE_WORD_MISSING,
                      STATUS_GCODE_UNSUPPORTED_COORD_SYS, STATUS_GCODE_UNSUPPORTED_COMMAND,
                      STATUS_SETTING_READ_FAIL, STATUS_GCODE_G53_INVALID_MOTION_MODE}
    | Inr l' \<Rightarrow> True)"
  by (simp add: check_non_modal_def check_g10_def g10_select_def check_target_def Let_def
        split: option.split)

lemma check_motion_modes_status:
  "(case check_motion_modes env st l of
      Inl e \<Rightarrow> e \<in> {STATUS_GCODE_AXIS_WORDS_EXIST, STATUS_GCODE_UNDEFINED_FEED_RATE,
                      STATUS_GCODE_NO_AXIS_WORDS, STATUS_GCODE_NO_AXIS_WORDS_IN_PLANE,
                      STATUS_GCODE_INVALID_TARGET, STATUS_GCODE_ARC_RADIUS_ERROR}
    | Inr l' \<Rightarrow> True)"
  by (simp add: check_motion_modes_def check_arc_def arc_radius_mode_def arc_offset_mode_def
        Let_def)

lemma check_unused_words_status:
  "(case check_unused_words l of Inl e \<Rightarrow> e = STATUS_GCODE_UNUSED_WORDS
    | Inr l' \<Rightarrow> gc_parser_flags l' = gc_parser_flags l)"
  by (simp add: check_unused_words_def Let_def)

lemma execute_jog_status:
  "fst (execute_jog env l w) \<in> {STATUS_INVALID_JOG_COMMAND, jog_execute_status env}"
  by (simp add: execute_jog_def Let_def)

lemma execute_block_status:
  "fst (execute_block env l w) \<in> {STATUS_OK, STATUS_SETTING_READ_FAIL}"
  by (simp add: execute_block_def execute_program_flow_def Let_def split: prod.split option.split)

lemma and_then_status:
  assumes "case r of Inl e \<Rightarrow> P e | Inr a \<Rightarrow> True"
    and "\<And>a. case k a of Inl e \<Rightarrow> P e | Inr b \<Rightarrow> Q b"
  shows "case and_then r k of Inl e \<Rightarrow> P e | Inr b \<Rightarrow> Q b"
  using assms by (cases r) (simp_all add: and_then_def)

lemma sum_case_weaken:
  assumes "case r of Inl e \<Rightarrow> P e | Inr a \<Rightarrow> Q a"
    and "\<And>e. P e \<Longrightarrow> P' e" and "\<And>a. Q a \<Longrightarrow> Q' a"
  shows "case r of Inl e \<Rightarrow> P' e | Inr a \<Rightarrow> Q' a"
  using assms by (cases r) simp_all

lemma checks_after_line_number_status:
  "(case and_then (check_feed_rate (gc_state w) l1) (\<lambda>l2.
         and_then (check_dwell l2) (\<lambda>l3.
         and_then (check_coord_select w l3) (\<lambda>l4.
         and_then (check_non_modal w l4) (\<lambda>l5.
         and_then (check_motion_modes env (gc_state w) l5) (\<lambda>l6.
         check_unused_words l6))))) of
      Inl e \<Rightarrow> e \<noteq> STATUS_GCODE_INVALID_LINE_NUMBER | Inr l' \<Rightarrow> True)"
  apply (rule and_then_status)
   apply (rule sum_case_weaken [OF check_feed_rate_status]; simp)
  apply (rule and_then_status)
   apply (rule sum_case_weaken [OF check_dwell_status]; simp)
  apply (rule and_then_status)
   apply (rule sum_case_weaken [OF check_coord_select_status]; auto)
  apply (rule and_then_status)
   apply (rule sum_case_weaken [OF check_non_modal_status]; auto)
  apply (rule and_then_status)
   apply (rule sum_case_weaken [OF check_motion_modes_status]; auto)
  apply (rule sum_case_weaken [OF check_unused_words_status]; simp)
  done

lemma and_then_assoc: "and_then (and_then r f) g = and_then r (\<lambda>a. and_then (f a) g)"
  by (cases r) (simp_all add: and_then_def)

lemma error_check_unfold:
  "error_check env w l =
     and_then (check_line_number (implicit_axis_command l)) (\<lambda>l1.
     and_then (check_feed_rate (gc_state w) l1) (\<lambda>l2.
     and_then (check_dwell l2) (\<lambda>l3.
     and_then (check_coord_select w l3) (\<lambda>l4.
     and_then (check_non_modal w l4) (\<lambda>l5.
     and_then (check_motion_modes env (gc_state w) l5) (\<lambda>l6.
     check_unused_words l6))))))"
  by (simp add: error_check_def check_before_motion_def and_then_assoc)

lemma error_check_line_number:
  "(case error_check env w l of
      Inl e \<Rightarrow> (e = STATUS_GCODE_INVALID_LINE_NUMBER)
                 = (WORD_N \<in> value_words l \<and> MAX_LINE_NUMBER < val_n (bvalues l))
    | Inr l' \<Rightarrow> \<not> (WORD_N \<in> value_words l \<and> MAX_LINE_NUMBER < val_n (bvalues l)))"
proof -
  let ?l = "implicit_axis_command l"
  have same: "value_words ?l = value_words l" "bvalues ?l = bvalues l"
    by (simp_all add: implicit_axis_command_def)
  show ?thesis
  proof (cases "check_line_number ?l")
    case (Inl e)
    with check_line_number_status [of ?l] same show ?thesis
      by (simp add: error_check_unfold and_then_def)
  next
    case (Inr l1)
    with check_line_number_status [of ?l] same
    have ok: "\<not> (WORD_N \<in> value_words l \<and> MAX_LINE_NUMBER < val_n (bvalues l))"
      by auto
    from Inr checks_after_line_number_status [of w l1 env] ok show ?thesis
      by (simp add: error_check_unfold and_then_Inr split: sum.splits)
  qed
qed

text \<open>What the checks before the motion modes leave untouched, and a block that reaches
  the motion modes.\<close>

lemma check_dwell_frame:
  "(case check_dwell l of Inl e \<Rightarrow> True | Inr l' \<Rightarrow>
      bvalues l' = bvalues l \<and> bmodal l' = bmodal l \<and> axis_command l' = axis_command l
      \<and> gc_parser_flags l' = gc_parser_flags l)"
  by (simp add: check_dwell_def)

lemma check_coord_select_frame:
  "(case check_coord_select w l of Inl e \<Rightarrow> True | Inr l' \<Rightarrow>
      bvalues l' = bvalues l \<and> bmodal l' = bmodal l \<and> axis_command l' = axis_command l
      \<and> gc_parser_flags l' = gc_parser_flags l)"
  by (simp add: check_coord_select_def Let_def split: option.split)

lemma check_non_modal_frame:
  "(case check_non_modal w l of Inl e \<Rightarrow> True | Inr l' \<Rightarrow>
      val_f (bvalues l') = val_f (bvalues l) \<and> bmodal l' = bmodal l
      \<and> axis_command l' = axis_command l \<and> gc_parser_flags l' = gc_parser_flags l)"
  by (simp add: check_non_modal_def check_g10_def g10_select_def check_target_def Let_def
        split: option.split)

lemma error_check_after:
  "check_before_motion w l1 = Inr l2 \<Longrightarrow>
   error_check env w l1 = and_then (check_motion_modes env (gc_state w) l2) check_unused_words"
  by (simp add: error_check_def and_then_def)

lemma gc_execute_line_check_fails:
  assumes "import_words (gwords line) (init_locals (gc_state w) (jog line)) = Inr l1"
    and "check_before_motion w l1 = Inr l2"
    and "check_motion_modes env (gc_state w) l2 = Inl e"
  shows "gc_execute_line env w line = (e, w)"
  using assms by (simp add: gc_execute_line_def error_check_after and_then_def)

lemma gc_execute_line_check_passes:
  assumes "import_words (gwords line) (init_locals (gc_state w) (jog line)) = Inr l1"
    and "check_before_motion w l1 = Inr l2"
    and "check_motion_modes env (gc_state w) l2 = Inr l3"
  shows "fst (gc_execute_line env w line)
           \<in> {STATUS_GCODE_UNUSED_WORDS, STATUS_OK, STATUS_SETTING_READ_FAIL,
               STATUS_INVALID_JOG_COMMAND, jog_execute_status env}"
proof (cases "check_unused_words l3")
  case (Inl e)
  with check_unused_words_status [of l3] assms show ?thesis
    by (simp add: gc_execute_line_def error_check_after and_then_def)
next
  case (Inr l4)
  with assms execute_jog_status [of env l4 w] execute_block_status [of env l4 w] show ?thesis
    by (auto simp: gc_execute_line_def error_check_after and_then_def)
qed

subsection \<open>Atomicity on failure\<close>

text \<open>
  C1. The claim: whenever \<^verbatim>\<open>gc_execute_line\<close> returns a status other than \<^verbatim>\<open>STATUS_OK\<close>,
  \<^verbatim>\<open>gc_state\<close> is what it was before the call. The code breaks it at line 786: the block
  \<^verbatim>\<open>M2\<close>, with the coordinate data of G54 unreadable and the system not in check mode,
  returns \<^verbatim>\<open>STATUS_SETTING_READ_FAIL\<close> after STEP 4 has already written the modal state:
  the motion mode has gone from G0 to G1 and the program flow is left at 2.
\<close>

theorem program_end_read_failure_changes_state:
  "(let r = gc_execute_line plain_env unreadable_world (block [word (CHR ''M'') 2])
    in fst r = STATUS_SETTING_READ_FAIL
       \<and> gc_state (snd r) \<noteq> gc_state unreadable_world
       \<and> motion (modal (gc_state unreadable_world)) = MOTION_MODE_SEEK
       \<and> motion (modal (gc_state (snd r))) = MOTION_MODE_LINEAR
       \<and> program_flow (modal (gc_state (snd r))) = 2)"
  by (simp add: gc_eval)

text \<open>
  What does hold: a failure with any status other than \<^verbatim>\<open>STATUS_SETTING_READ_FAIL\<close> leaves
  \<^verbatim>\<open>gc_state\<close> as it was.
\<close>

lemma execute_jog_state:
  "fst (execute_jog env l w) \<noteq> STATUS_OK \<Longrightarrow> gc_state (snd (execute_jog env l w)) = gc_state w"
  by (simp add: execute_jog_def Let_def split: if_splits)

lemma failure_keeps_state:
  assumes "fst (gc_execute_line env w line) \<noteq> STATUS_OK"
    and "fst (gc_execute_line env w line) \<noteq> STATUS_SETTING_READ_FAIL"
  shows "gc_state (snd (gc_execute_line env w line)) = gc_state w"
proof (cases "import_words (gwords line) (init_locals (gc_state w) (jog line))")
  case (Inl e)
  then show ?thesis by (simp add: gc_execute_line_def)
next
  case l1: (Inr l1)
  show ?thesis
  proof (cases "error_check env w l1")
    case (Inl e)
    with l1 show ?thesis by (simp add: gc_execute_line_def)
  next
    case (Inr l2)
    show ?thesis
    proof (cases "GC_PARSER_JOG_MOTION \<in> gc_parser_flags l2")
      case True
      with l1 Inr have "gc_execute_line env w line = execute_jog env l2 w"
        by (simp add: gc_execute_line_def)
      with assms(1) show ?thesis by (simp add: execute_jog_state)
    next
      case False
      with l1 Inr have "gc_execute_line env w line = execute_block env l2 w"
        by (simp add: gc_execute_line_def)
      with assms execute_block_status [of env l2 w] show ?thesis by simp
    qed
  qed
qed

subsection \<open>The plane axes of an arc\<close>

text \<open>
  C4. The claim: in an arc block, \<^verbatim>\<open>axis_0\<close>, \<^verbatim>\<open>axis_1\<close> and \<^verbatim>\<open>axis_linear\<close> have been
  assigned from the active plane before they are read. The code never assigns them, so what
  an arc block returns depends on what they happen to hold: the block
  \<^verbatim>\<open>G2X10I5J0F100\<close> is accepted when they hold X and Y, and fails with
  \<^verbatim>\<open>STATUS_GCODE_NO_AXIS_WORDS_IN_PLANE\<close> when both hold Y.
\<close>

theorem arc_status_depends_on_unassigned_axes:
  "(let arc = block [word (CHR ''G'') 2, word (CHR ''X'') 10, word (CHR ''I'') 5,
                     word (CHR ''J'') 0, word (CHR ''F'') 100]
    in fst (gc_execute_line plain_env stored_world arc) = STATUS_OK
       \<and> fst (gc_execute_line (plain_env\<lparr>axis_0 := Y_AXIS\<rparr>) stored_world arc)
           = STATUS_GCODE_NO_AXIS_WORDS_IN_PLANE)"
  by (simp add: gc_eval)

subsection \<open>G10\<close>

text \<open>
  C8. The claim: a G10 block without a P word, or without an L word, fails with
  \<^verbatim>\<open>STATUS_GCODE_VALUE_WORD_MISSING\<close>. The test of line 412 fails only when both are
  missing: \<^verbatim>\<open>G10L2X1\<close> (no P) is accepted and overwrites the active coordinate system,
  and \<^verbatim>\<open>G10P1X1\<close> (no L) fails with \<^verbatim>\<open>STATUS_GCODE_UNSUPPORTED_COMMAND\<close>.
\<close>

theorem g10_missing_word_not_reported:
  "(let r = gc_execute_line plain_env stored_world
              (block [word (CHR ''G'') 10, word (CHR ''L'') 2, word (CHR ''X'') 1])
    in fst r = STATUS_OK \<and> coord_data (snd r) 0 = Some [1, 0]
       \<and> coord_system (gc_state (snd r)) = [1, 0])
   \<and> fst (gc_execute_line plain_env stored_world
            (block [word (CHR ''G'') 10, word (CHR ''P'') 1, word (CHR ''X'') 1]))
       = STATUS_GCODE_UNSUPPORTED_COMMAND"
  by (simp add: gc_eval)

text \<open>
  What does hold of G10: axis words are required; a block with neither P nor L fails with
  \<^verbatim>\<open>STATUS_GCODE_VALUE_WORD_MISSING\<close>; a P above \<^verbatim>\<open>N_COORDINATE_SYSTEM\<close> fails with
  \<^verbatim>\<open>STATUS_GCODE_UNSUPPORTED_COORD_SYS\<close>; and the data written for an axis is, with an axis
  word, the position less the G92 offset less the programmed value for L20 and the programmed
  value for L2, and without an axis word the value read from EEPROM.
\<close>

lemma g10_no_axis_words:
  "axis_words l = {} \<Longrightarrow> check_g10 w l = Inl STATUS_GCODE_NO_AXIS_WORDS"
  by (simp add: check_g10_def)

lemma g10_neither_P_nor_L:
  "axis_words l \<noteq> {} \<Longrightarrow> WORD_P \<notin> value_words l \<Longrightarrow> WORD_L \<notin> value_words l \<Longrightarrow>
     check_g10 w l = Inl STATUS_GCODE_VALUE_WORD_MISSING"
  by (simp add: check_g10_def)

lemma g10_P_above_N:
  "axis_words l \<noteq> {} \<Longrightarrow> WORD_P \<in> value_words l \<or> WORD_L \<in> value_words l \<Longrightarrow>
     to_uint8 (c_trunc (val_p (bvalues l))) > N_COORDINATE_SYSTEM \<Longrightarrow>
     check_g10 w l = Inl STATUS_GCODE_UNSUPPORTED_COORD_SYS"
  by (auto simp: check_g10_def Let_def)

lemma g10_coord_data_nth:
  assumes "idx < N_AXIS" and "length data = N_AXIS"
  shows "g10_coord_data st l data ! idx =
           (if idx \<in> axis_words l then
              (if val_l (bvalues l) = 20
               then position st ! idx - coord_offset st ! idx - val_xyz (bvalues l) ! idx
               else val_xyz (bvalues l) ! idx)
            else data ! idx)"
proof -
  from assms(1) have "idx = 0 \<or> idx = 1" by (auto simp: N_AXIS_def)
  with assms(2) show ?thesis
    by (auto simp: g10_coord_data_def axis_indices_eq N_AXIS_def)
qed

subsection \<open>Axis commands\<close>

lemma axis_command_kept:
  "import_word x k = Inr k' \<Longrightarrow> axis_command k \<noteq> AXIS_COMMAND_NONE \<Longrightarrow> axis_command k' \<noteq> AXIS_COMMAND_NONE"
  by (auto simp: import_word_def g_word_def g_command_def m_word_def value_word_def value_command_def Let_def
      AXIS_COMMAND_NONE_def AXIS_COMMAND_NON_MODAL_def AXIS_COMMAND_MOTION_MODE_def
     split: if_splits sum.splits option.splits prod.splits)

lemma axis_code_conflict:
  "c \<in> set non_modal_axis_codes \<union> set motion_codes \<Longrightarrow> axis_command k \<noteq> AXIS_COMMAND_NONE \<Longrightarrow>
     import_word c k = Inl STATUS_GCODE_AXIS_COMMAND_CONFLICT"
  by (auto simp: non_modal_axis_codes_def motion_codes_def word_def import_G g_word_def g_command_def conv_defs)

lemma axis_code_sets:
  "c \<in> set non_modal_axis_codes \<union> set motion_codes \<Longrightarrow> import_word c k = Inr k' \<Longrightarrow>
     axis_command k' \<noteq> AXIS_COMMAND_NONE"
  by (auto simp: non_modal_axis_codes_def motion_codes_def word_def import_G g_word_def g_command_def conv_defs
      AXIS_COMMAND_NONE_def AXIS_COMMAND_NON_MODAL_def AXIS_COMMAND_MOTION_MODE_def split: if_splits)

text \<open>
  C6. A block that contains one of G10, G28, G30, G92 (in integer form) and one of G0, G1,
  G2, G3, G38.2 to G38.5, in either order, fails with \<^verbatim>\<open>STATUS_GCODE_AXIS_COMMAND_CONFLICT\<close>
  and leaves the state as it was. The parser returns at the first word that fails, so the
  words before the second of the two codes are taken to be imported without error; the
  words after it are arbitrary.
\<close>

theorem axis_command_conflict:
  assumes "gwords line = pre @ c2 # post"
    and "c1 \<in> set pre"
    and "(c1 \<in> set non_modal_axis_codes \<and> c2 \<in> set motion_codes)
         \<or> (c1 \<in> set motion_codes \<and> c2 \<in> set non_modal_axis_codes)"
    and "import_words pre (init_locals (gc_state w) (jog line)) = Inr l"
  shows "gc_execute_line env w line = (STATUS_GCODE_AXIS_COMMAND_CONFLICT, w)"
proof -
  from assms(3) have c1: "c1 \<in> set non_modal_axis_codes \<union> set motion_codes"
    and c2: "c2 \<in> set non_modal_axis_codes \<union> set motion_codes" by auto
  have "axis_command l \<noteq> AXIS_COMMAND_NONE"
  proof (rule import_words_establish [where P = "\<lambda>k. axis_command k \<noteq> AXIS_COMMAND_NONE" and wd = c1])
    show "import_words pre (init_locals (gc_state w) (jog line)) = Inr l" by fact
    show "c1 \<in> set pre" by fact
    show "axis_command k' \<noteq> AXIS_COMMAND_NONE" if "import_word c1 k = Inr k'" for k k'
      using c1 that by (rule axis_code_sets)
    show "axis_command k' \<noteq> AXIS_COMMAND_NONE"
      if "import_word x k = Inr k'" and "axis_command k \<noteq> AXIS_COMMAND_NONE" for x k k'
      using that by (rule axis_command_kept)
  qed
  with c2 have "import_word c2 l = Inl STATUS_GCODE_AXIS_COMMAND_CONFLICT"
    by (rule axis_code_conflict)
  with assms(1,4) show ?thesis by (rule gc_execute_line_word_fails)
qed

text \<open>
  The theorem at \<^verbatim>\<open>G10L2G0X1\<close> and at \<^verbatim>\<open>G1X1G92\<close>.
\<close>

theorem axis_command_conflict_witness:
  "gc_execute_line plain_env stored_world
     (block [word (CHR ''G'') 10, word (CHR ''L'') 2, word (CHR ''G'') 0, word (CHR ''X'') 1])
     = (STATUS_GCODE_AXIS_COMMAND_CONFLICT, stored_world)
   \<and> gc_execute_line plain_env stored_world
     (block [word (CHR ''G'') 1, word (CHR ''X'') 1, word (CHR ''G'') 92])
     = (STATUS_GCODE_AXIS_COMMAND_CONFLICT, stored_world)"
proof
  obtain l where l: "import_words [word (CHR ''G'') 10, word (CHR ''L'') 2]
      (init_locals (gc_state stored_world)
         (jog (block [word (CHR ''G'') 10, word (CHR ''L'') 2, word (CHR ''G'') 0,
                      word (CHR ''X'') 1]))) = Inr l"
    by (simp add: gc_eval)
  show "gc_execute_line plain_env stored_world
     (block [word (CHR ''G'') 10, word (CHR ''L'') 2, word (CHR ''G'') 0, word (CHR ''X'') 1])
     = (STATUS_GCODE_AXIS_COMMAND_CONFLICT, stored_world)"
    by (rule axis_command_conflict [where ?c1.0 = "word (CHR ''G'') 10"
          and pre = "[word (CHR ''G'') 10, word (CHR ''L'') 2]"
          and ?c2.0 = "word (CHR ''G'') 0" and post = "[word (CHR ''X'') 1]", OF _ _ _ l])
       (simp_all add: block_def non_modal_axis_codes_def motion_codes_def)
  obtain k where k: "import_words [word (CHR ''G'') 1, word (CHR ''X'') 1]
      (init_locals (gc_state stored_world)
         (jog (block [word (CHR ''G'') 1, word (CHR ''X'') 1, word (CHR ''G'') 92]))) = Inr k"
    by (simp add: gc_eval)
  show "gc_execute_line plain_env stored_world
     (block [word (CHR ''G'') 1, word (CHR ''X'') 1, word (CHR ''G'') 92])
     = (STATUS_GCODE_AXIS_COMMAND_CONFLICT, stored_world)"
    by (rule axis_command_conflict [where ?c1.0 = "word (CHR ''G'') 1"
          and pre = "[word (CHR ''G'') 1, word (CHR ''X'') 1]"
          and ?c2.0 = "word (CHR ''G'') 92" and post = "[]", OF _ _ _ k])
       (simp_all add: block_def non_modal_axis_codes_def motion_codes_def)
qed

subsection \<open>Modal groups\<close>

lemma group_kept:
  "import_word x k = Inr k' \<Longrightarrow> g \<in> command_words k \<Longrightarrow> g \<in> command_words k'"
  by (auto simp: import_word_def g_word_def g_command_def m_word_def value_word_def value_command_def Let_def
     split: if_splits sum.splits option.splits prod.splits)


lemma code_sets_group_all:
  "\<forall>(c, g) \<in> set recognized_codes. \<forall>k k'. import_word c k = Inr k' \<longrightarrow> g \<in> command_words k'"
  unfolding recognized_codes_def
  by (simp add: word_def import_G import_M g_word_def g_command_def m_word_def conv_defs Let_def)

lemma code_violation_all:
  "\<forall>(c, g) \<in> set recognized_codes. \<forall>k. g \<in> command_words k \<longrightarrow>
   import_word c k =
     Inl (if c \<in> set non_modal_axis_codes \<union> set motion_codes \<and> axis_command k \<noteq> AXIS_COMMAND_NONE
          then STATUS_GCODE_AXIS_COMMAND_CONFLICT else STATUS_GCODE_MODAL_GROUP_VIOLATION)"
  unfolding recognized_codes_def
  by (simp add: non_modal_axis_codes_def motion_codes_def import_G import_M g_word_def g_command_def m_word_def conv_defs Let_def word_def)

text \<open>
  C3 as stated fails: G0 and G1 are recognized codes of the same modal group, and the block
  \<^verbatim>\<open>G0G1\<close> fails with \<^verbatim>\<open>STATUS_GCODE_AXIS_COMMAND_CONFLICT\<close>, not with
  \<^verbatim>\<open>STATUS_GCODE_MODAL_GROUP_VIOLATION\<close>: the test of line 164 comes before the test of
  line 218.
\<close>

theorem motion_pair_is_axis_conflict:
  "(word (CHR ''G'') 0, MODAL_GROUP_G1) \<in> set recognized_codes
   \<and> (word (CHR ''G'') 1, MODAL_GROUP_G1) \<in> set recognized_codes
   \<and> gc_execute_line plain_env stored_world (block [word (CHR ''G'') 0, word (CHR ''G'') 1])
       = (STATUS_GCODE_AXIS_COMMAND_CONFLICT, stored_world)"
  by (simp add: recognized_codes_def gc_eval)

text \<open>
  C3, amended. Let a block hold two recognized codes of one modal group, the words before
  the second code being imported without error. The block fails with
  \<^verbatim>\<open>STATUS_GCODE_MODAL_GROUP_VIOLATION\<close>, in either order of the two codes, unless the second
  code is an axis command (G0, G1, G2, G3, G38.x, or G10, G28, G30, G92 in integer form) read
  when an axis command is already set; then it fails with
  \<^verbatim>\<open>STATUS_GCODE_AXIS_COMMAND_CONFLICT\<close>. An axis command is set in particular when the
  first code is one. The state is left as it was.
\<close>

theorem modal_group_violation:
  assumes "gwords line = pre @ c2 # post"
    and "c1 \<in> set pre"
    and "(c1, g) \<in> set recognized_codes"
    and "(c2, g) \<in> set recognized_codes"
    and "import_words pre (init_locals (gc_state w) (jog line)) = Inr l"
  shows "gc_execute_line env w line =
           (if c2 \<in> set non_modal_axis_codes \<union> set motion_codes
               \<and> axis_command l \<noteq> AXIS_COMMAND_NONE
            then STATUS_GCODE_AXIS_COMMAND_CONFLICT
            else STATUS_GCODE_MODAL_GROUP_VIOLATION, w)
         \<and> (c1 \<in> set non_modal_axis_codes \<union> set motion_codes
              \<longrightarrow> axis_command l \<noteq> AXIS_COMMAND_NONE)"
proof
  have "g \<in> command_words l"
  proof (rule import_words_establish [where P = "\<lambda>k. g \<in> command_words k" and wd = c1])
    show "import_words pre (init_locals (gc_state w) (jog line)) = Inr l" by fact
    show "c1 \<in> set pre" by fact
    show "g \<in> command_words k'" if "import_word c1 k = Inr k'" for k k'
      using code_sets_group_all assms(3) that by blast
    show "g \<in> command_words k'" if "import_word x k = Inr k'" and "g \<in> command_words k" for x k k'
      using that by (rule group_kept)
  qed
  with code_violation_all assms(4)
  have "import_word c2 l =
     Inl (if c2 \<in> set non_modal_axis_codes \<union> set motion_codes \<and> axis_command l \<noteq> AXIS_COMMAND_NONE
          then STATUS_GCODE_AXIS_COMMAND_CONFLICT else STATUS_GCODE_MODAL_GROUP_VIOLATION)"
    by blast
  with assms(1,5) show "gc_execute_line env w line =
           (if c2 \<in> set non_modal_axis_codes \<union> set motion_codes
               \<and> axis_command l \<noteq> AXIS_COMMAND_NONE
            then STATUS_GCODE_AXIS_COMMAND_CONFLICT
            else STATUS_GCODE_MODAL_GROUP_VIOLATION, w)"
    by (rule gc_execute_line_word_fails)
  show "c1 \<in> set non_modal_axis_codes \<union> set motion_codes
              \<longrightarrow> axis_command l \<noteq> AXIS_COMMAND_NONE"
  proof
    assume c1: "c1 \<in> set non_modal_axis_codes \<union> set motion_codes"
    show "axis_command l \<noteq> AXIS_COMMAND_NONE"
    proof (rule import_words_establish [where P = "\<lambda>k. axis_command k \<noteq> AXIS_COMMAND_NONE" and wd = c1])
      show "import_words pre (init_locals (gc_state w) (jog line)) = Inr l" by fact
      show "c1 \<in> set pre" by fact
      show "axis_command k' \<noteq> AXIS_COMMAND_NONE" if "import_word c1 k = Inr k'" for k k'
        using c1 that by (rule axis_code_sets)
      show "axis_command k' \<noteq> AXIS_COMMAND_NONE"
        if "import_word x k = Inr k'" and "axis_command k \<noteq> AXIS_COMMAND_NONE" for x k k'
        using that by (rule axis_command_kept)
    qed
  qed
qed

text \<open>
  The theorem at \<^verbatim>\<open>G90X1G91\<close>, at \<^verbatim>\<open>G80G0\<close> and at \<^verbatim>\<open>G2G3\<close>.
\<close>

theorem modal_group_violation_witness:
  "gc_execute_line plain_env stored_world
     (block [word (CHR ''G'') 90, word (CHR ''X'') 1, word (CHR ''G'') 91])
     = (STATUS_GCODE_MODAL_GROUP_VIOLATION, stored_world)
   \<and> gc_execute_line plain_env stored_world
     (block [word (CHR ''G'') 80, word (CHR ''G'') 0])
     = (STATUS_GCODE_MODAL_GROUP_VIOLATION, stored_world)
   \<and> gc_execute_line plain_env stored_world
     (block [word (CHR ''G'') 2, word (CHR ''G'') 3])
     = (STATUS_GCODE_AXIS_COMMAND_CONFLICT, stored_world)"
proof (intro conjI)
  have l: "import_words [word (CHR ''G'') 90, word (CHR ''X'') 1]
      (init_locals (gc_state stored_world)
         (jog (block [word (CHR ''G'') 90, word (CHR ''X'') 1, word (CHR ''G'') 91])))
      = Inr ((init_locals blank_state False)
          \<lparr>bvalues := (bvalues (init_locals blank_state False))\<lparr>val_xyz := [1, 0]\<rparr>,
           axis_words := {0}, command_words := {MODAL_GROUP_G3}, value_words := {WORD_X}\<rparr>)"
    by (simp add: gc_eval)
  show "gc_execute_line plain_env stored_world
     (block [word (CHR ''G'') 90, word (CHR ''X'') 1, word (CHR ''G'') 91])
     = (STATUS_GCODE_MODAL_GROUP_VIOLATION, stored_world)"
    using modal_group_violation [where ?c1.0 = "word (CHR ''G'') 90"
          and pre = "[word (CHR ''G'') 90, word (CHR ''X'') 1]" and g = MODAL_GROUP_G3
          and ?c2.0 = "word (CHR ''G'') 91" and post = "[]" and env = plain_env, OF _ _ _ _ l]
    by (simp add: block_def recognized_codes_def non_modal_axis_codes_def motion_codes_def word_def)
  have k: "import_words [word (CHR ''G'') 80]
      (init_locals (gc_state stored_world) (jog (block [word (CHR ''G'') 80, word (CHR ''G'') 0])))
      = Inr ((init_locals blank_state False)
          \<lparr>bmodal := (bmodal (init_locals blank_state False))\<lparr>motion := 80\<rparr>,
           command_words := {MODAL_GROUP_G1}\<rparr>)"
    by (simp add: gc_eval)
  show "gc_execute_line plain_env stored_world
     (block [word (CHR ''G'') 80, word (CHR ''G'') 0])
     = (STATUS_GCODE_MODAL_GROUP_VIOLATION, stored_world)"
    using modal_group_violation [where ?c1.0 = "word (CHR ''G'') 80"
          and pre = "[word (CHR ''G'') 80]" and g = MODAL_GROUP_G1
          and ?c2.0 = "word (CHR ''G'') 0" and post = "[]" and env = plain_env, OF _ _ _ _ k]
    by (simp add: block_def recognized_codes_def non_modal_axis_codes_def motion_codes_def word_def
          init_locals_def AXIS_COMMAND_NONE_def)
  have m: "import_words [word (CHR ''G'') 2]
      (init_locals (gc_state stored_world) (jog (block [word (CHR ''G'') 2, word (CHR ''G'') 3])))
      = Inr ((init_locals blank_state False)
          \<lparr>bmodal := (bmodal (init_locals blank_state False))\<lparr>motion := 2\<rparr>,
           axis_command := AXIS_COMMAND_MOTION_MODE, command_words := {MODAL_GROUP_G1}\<rparr>)"
    by (simp add: gc_eval)
  show "gc_execute_line plain_env stored_world
     (block [word (CHR ''G'') 2, word (CHR ''G'') 3])
     = (STATUS_GCODE_AXIS_COMMAND_CONFLICT, stored_world)"
    using modal_group_violation [where ?c1.0 = "word (CHR ''G'') 2"
          and pre = "[word (CHR ''G'') 2]" and g = MODAL_GROUP_G1
          and ?c2.0 = "word (CHR ''G'') 3" and post = "[]" and env = plain_env, OF _ _ _ _ m]
    by (simp add: block_def recognized_codes_def non_modal_axis_codes_def motion_codes_def word_def
          init_locals_def AXIS_COMMAND_NONE_def AXIS_COMMAND_MOTION_MODE_def)
qed

subsection \<open>Value words\<close>

lemma value_words_import:
  "import_words ws l = Inr l' \<Longrightarrow>
   value_words l' = value_words l \<union> {b. \<exists>c \<in> fst ` set ws. letter_bit c = Some b}"
proof (induction ws arbitrary: l)
  case Nil
  then show ?case by simp
next
  case (Cons x xs)
  from Cons.prems obtain k where k: "import_word x l = Inr k" and rest: "import_words xs k = Inr l'"
    by (auto split: sum.splits)
  from value_words_step [OF k] Cons.IH [OF rest] show ?case
    by (auto split: option.splits)
qed

lemma value_words_init: "value_words (init_locals st j) = {}"
  by (simp add: init_locals_def Let_def)

lemma letter_bit_cases:
  "letter_bit c = Some b \<Longrightarrow>
   (c, b) \<in> {(CHR ''F'', WORD_F), (CHR ''I'', WORD_I), (CHR ''J'', WORD_J), (CHR ''L'', WORD_L),
              (CHR ''N'', WORD_N), (CHR ''P'', WORD_P), (CHR ''R'', WORD_R), (CHR ''X'', WORD_X),
              (CHR ''Y'', WORD_Y)}"
  by (simp add: letter_bit_def split: if_splits)

lemma value_letters_all:
  "\<forall>(c, b) \<in> {(CHR ''F'', WORD_F), (CHR ''I'', WORD_I), (CHR ''J'', WORD_J), (CHR ''L'', WORD_L),
              (CHR ''N'', WORD_N), (CHR ''P'', WORD_P), (CHR ''R'', WORD_R), (CHR ''X'', WORD_X),
              (CHR ''Y'', WORD_Y)}.
     (b \<in> value_words k \<longrightarrow> import_word (c, Some v) k = Inl STATUS_GCODE_WORD_REPEATED)
     \<and> (b \<notin> value_words k \<and> b \<in> {WORD_F, WORD_N, WORD_P} \<and> v < 0 \<longrightarrow>
          import_word (c, Some v) k = Inl STATUS_NEGATIVE_VALUE)"
  by (simp add: import_word_def value_word_def value_command_def Let_def)

lemma value_letter_facts:
  assumes "letter_bit c = Some b"
  shows "(b \<in> value_words k \<longrightarrow> import_word (c, Some v) k = Inl STATUS_GCODE_WORD_REPEATED)
     \<and> (b \<notin> value_words k \<and> b \<in> {WORD_F, WORD_N, WORD_P} \<and> v < 0 \<longrightarrow>
          import_word (c, Some v) k = Inl STATUS_NEGATIVE_VALUE)"
  using bspec [OF value_letters_all [of k v] letter_bit_cases [OF assms]] by simp

lemma repeated_word:
  assumes "letter_bit c = Some b" and "b \<in> value_words k"
  shows "import_word (c, Some v) k = Inl STATUS_GCODE_WORD_REPEATED"
  using value_letter_facts [OF assms(1), of k v] assms(2) by simp

lemma negative_word:
  assumes "c \<in> {CHR ''F'', CHR ''N'', CHR ''P''}" and "v < 0"
    and "letter_bit c = Some b" and "b \<notin> value_words k"
  shows "import_word (c, Some v) k = Inl STATUS_NEGATIVE_VALUE"
proof -
  from assms(1,3) have "b \<in> {WORD_F, WORD_N, WORD_P}"
    by (auto simp: letter_bit_def)
  with value_letter_facts [OF assms(3), of k v] assms(2,4) show ?thesis by blast
qed

lemma s_word: "import_word (CHR ''S'', Some v) k = Inl STATUS_GCODE_UNSUPPORTED_COMMAND"
  by (simp add: import_word_def value_word_def value_command_def Let_def)

text \<open>
  C9 as stated fails for the letter S: this parser has no \<^verbatim>\<open>case 'S'\<close>, so an S word, negative
  or not, fails with \<^verbatim>\<open>STATUS_GCODE_UNSUPPORTED_COMMAND\<close>.
\<close>

theorem negative_s_word_is_unsupported:
  "gc_execute_line plain_env stored_world (block [word (CHR ''S'') (- 1)])
     = (STATUS_GCODE_UNSUPPORTED_COMMAND, stored_world)"
  by (simp add: gc_eval)

text \<open>
  C9, amended. In a block whose words before a value word are imported without error: an F,
  N or P word with a negative value, the first of its letter, fails with
  \<^verbatim>\<open>STATUS_NEGATIVE_VALUE\<close>; a word of a letter F, I, J, L, N, P, R, X or Y that the block
  already holds fails with \<^verbatim>\<open>STATUS_GCODE_WORD_REPEATED\<close>; an S word fails with
  \<^verbatim>\<open>STATUS_GCODE_UNSUPPORTED_COMMAND\<close>. The state is left as it was.
\<close>

theorem value_word_rejections:
  assumes "gwords line = pre @ (c, Some v) # post"
    and "import_words pre (init_locals (gc_state w) (jog line)) = Inr l"
  shows "(c \<in> {CHR ''F'', CHR ''N'', CHR ''P''} \<and> v < 0 \<and> c \<notin> fst ` set pre
            \<longrightarrow> gc_execute_line env w line = (STATUS_NEGATIVE_VALUE, w))
       \<and> (c \<in> {CHR ''F'', CHR ''I'', CHR ''J'', CHR ''L'', CHR ''N'', CHR ''P'', CHR ''R'',
                 CHR ''X'', CHR ''Y''} \<and> c \<in> fst ` set pre
            \<longrightarrow> gc_execute_line env w line = (STATUS_GCODE_WORD_REPEATED, w))
       \<and> (c = CHR ''S''
            \<longrightarrow> gc_execute_line env w line = (STATUS_GCODE_UNSUPPORTED_COMMAND, w))"
proof -
  have vw: "value_words l = {b. \<exists>d \<in> fst ` set pre. letter_bit d = Some b}"
    using value_words_import [OF assms(2)] by (simp add: value_words_init)
  have fails: "import_word (c, Some v) l = Inl e \<Longrightarrow> gc_execute_line env w line = (e, w)" for e
    using assms by (rule gc_execute_line_word_fails)
  have inj: "letter_bit d = Some b \<Longrightarrow> letter_bit c = Some b \<Longrightarrow> d = c" for d b
    by (auto dest!: letter_bit_cases)
  have neg: "gc_execute_line env w line = (STATUS_NEGATIVE_VALUE, w)"
    if "c \<in> {CHR ''F'', CHR ''N'', CHR ''P''}" "v < 0" "c \<notin> fst ` set pre"
  proof -
    from that(1) obtain b where b: "letter_bit c = Some b" by (auto simp: letter_bit_def)
    have "b \<notin> value_words l"
    proof
      assume "b \<in> value_words l"
      then obtain d where d: "d \<in> fst ` set pre" "letter_bit d = Some b" using vw by auto
      with b inj [of d] have "d = c" by simp
      with d(1) that(3) show False by simp
    qed
    with that(1,2) b have "import_word (c, Some v) l = Inl STATUS_NEGATIVE_VALUE"
      by (rule negative_word)
    then show ?thesis by (rule fails)
  qed
  have rep: "gc_execute_line env w line = (STATUS_GCODE_WORD_REPEATED, w)"
    if "c \<in> {CHR ''F'', CHR ''I'', CHR ''J'', CHR ''L'', CHR ''N'', CHR ''P'', CHR ''R'',
                 CHR ''X'', CHR ''Y''}" "c \<in> fst ` set pre"
  proof -
    from that(1) obtain b where b: "letter_bit c = Some b" by (auto simp: letter_bit_def)
    with that(2) vw have "b \<in> value_words l" by auto
    with b have "import_word (c, Some v) l = Inl STATUS_GCODE_WORD_REPEATED" by (rule repeated_word)
    then show ?thesis by (rule fails)
  qed
  have uns: "gc_execute_line env w line = (STATUS_GCODE_UNSUPPORTED_COMMAND, w)" if "c = CHR ''S''"
    using that s_word [of v l] by (auto intro: fails)
  show ?thesis
  proof (intro conjI impI, goal_cases)
    case 1
    then show ?case by (elim conjE) (rule neg; assumption)
  next
    case 2
    then show ?case by (elim conjE) (rule rep; assumption)
  next
    case 3
    then show ?case by (rule uns)
  qed
qed

text \<open>
  The theorem at \<^verbatim>\<open>G1F-100\<close>, at \<^verbatim>\<open>X1Y2X3\<close> and at \<^verbatim>\<open>G1S1000\<close>.
\<close>

theorem value_word_rejections_witness:
  "gc_execute_line plain_env stored_world (block [word (CHR ''G'') 1, word (CHR ''F'') (-100)])
     = (STATUS_NEGATIVE_VALUE, stored_world)
   \<and> gc_execute_line plain_env stored_world
       (block [word (CHR ''X'') 1, word (CHR ''Y'') 2, word (CHR ''X'') 3])
     = (STATUS_GCODE_WORD_REPEATED, stored_world)
   \<and> gc_execute_line plain_env stored_world (block [word (CHR ''G'') 1, word (CHR ''S'') 1000])
     = (STATUS_GCODE_UNSUPPORTED_COMMAND, stored_world)"
proof (intro conjI)
  obtain l where l: "import_words [word (CHR ''G'') 1]
      (init_locals (gc_state stored_world)
         (jog (block [word (CHR ''G'') 1, word (CHR ''F'') (-100)]))) = Inr l"
    by (simp add: gc_eval)
  show "gc_execute_line plain_env stored_world (block [word (CHR ''G'') 1, word (CHR ''F'') (-100)])
     = (STATUS_NEGATIVE_VALUE, stored_world)"
    using value_word_rejections [where pre = "[word (CHR ''G'') 1]" and c = "CHR ''F''"
        and v = "-100" and post = "[]" and env = plain_env, OF _ l]
    by (simp add: block_def word_def)
  obtain k where k: "import_words [word (CHR ''X'') 1, word (CHR ''Y'') 2]
      (init_locals (gc_state stored_world)
         (jog (block [word (CHR ''X'') 1, word (CHR ''Y'') 2, word (CHR ''X'') 3]))) = Inr k"
    by (simp add: gc_eval)
  show "gc_execute_line plain_env stored_world
       (block [word (CHR ''X'') 1, word (CHR ''Y'') 2, word (CHR ''X'') 3])
     = (STATUS_GCODE_WORD_REPEATED, stored_world)"
    using value_word_rejections [where pre = "[word (CHR ''X'') 1, word (CHR ''Y'') 2]"
        and c = "CHR ''X''" and v = 3 and post = "[]" and env = plain_env, OF _ k]
    by (simp add: block_def word_def)
  obtain m where m: "import_words [word (CHR ''G'') 1]
      (init_locals (gc_state stored_world)
         (jog (block [word (CHR ''G'') 1, word (CHR ''S'') 1000]))) = Inr m"
    by (simp add: gc_eval)
  show "gc_execute_line plain_env stored_world (block [word (CHR ''G'') 1, word (CHR ''S'') 1000])
     = (STATUS_GCODE_UNSUPPORTED_COMMAND, stored_world)"
    using value_word_rejections [where pre = "[word (CHR ''G'') 1]" and c = "CHR ''S''"
        and v = 1000 and post = "[]" and env = plain_env, OF _ m]
    by (simp add: block_def word_def)
qed

subsection \<open>Line numbers\<close>

lemma value_word_n_case:
  "(case value_word c v iv k of Inl e \<Rightarrow> True | Inr k' \<Rightarrow>
     (c = CHR ''N'' \<longrightarrow> 0 \<le> v \<and> val_n (bvalues k') = to_int32 (c_trunc v) \<and> WORD_N \<in> value_words k')
     \<and> (WORD_N \<in> value_words k \<longrightarrow>
           val_n (bvalues k') = val_n (bvalues k) \<and> WORD_N \<in> value_words k'))"
  by (simp add: value_word_def value_command_def not_less)

lemma import_word_n_case:
  "(case import_word x k of Inl e \<Rightarrow> True | Inr k' \<Rightarrow>
     (\<forall>v. x = (CHR ''N'', Some v) \<longrightarrow>
        0 \<le> v \<and> val_n (bvalues k') = to_int32 (c_trunc v) \<and> WORD_N \<in> value_words k')
     \<and> (WORD_N \<in> value_words k \<longrightarrow>
           val_n (bvalues k') = val_n (bvalues k) \<and> WORD_N \<in> value_words k'))"
proof (cases "snd x")
  case None
  then show ?thesis by (simp add: import_word_def Let_def)
next
  case (Some v)
  then have x: "x = (fst x, Some v)" by (simp add: prod_eq_iff)
  show ?thesis
    using Some
      g_word_frame_case [where k = k and iv = "to_uint8 (c_trunc v)"
        and m = "to_uint16 (c_round (100 * (v - real (to_uint8 (c_trunc v)))))"]
      m_word_frame_case [where k = k and iv = "to_uint8 (c_trunc v)"
        and m = "to_uint16 (c_round (100 * (v - real (to_uint8 (c_trunc v)))))"]
      value_word_n_case [where k = k and c = "fst x" and v = v and iv = "to_uint8 (c_trunc v)"]
    by (subst x) (simp add: import_word_def Let_def split: sum.splits)
qed

lemma n_word_imported:
  assumes "import_words ws l = Inr l'" and "(CHR ''N'', Some v) \<in> set ws"
  shows "0 \<le> v \<and> val_n (bvalues l') = to_int32 (c_trunc v) \<and> WORD_N \<in> value_words l'"
proof (rule import_words_establish
    [where P = "\<lambda>k. 0 \<le> v \<and> val_n (bvalues k) = to_int32 (c_trunc v) \<and> WORD_N \<in> value_words k"
       and wd = "(CHR ''N'', Some v)"])
  show "import_words ws l = Inr l'" by fact
  show "(CHR ''N'', Some v) \<in> set ws" by fact
  show "0 \<le> v \<and> val_n (bvalues k') = to_int32 (c_trunc v) \<and> WORD_N \<in> value_words k'"
    if "import_word (CHR ''N'', Some v) k = Inr k'" for k k'
    using import_word_n_case [where x = "(CHR ''N'', Some v)" and k = k] that by simp
  show "0 \<le> v \<and> val_n (bvalues k') = to_int32 (c_trunc v) \<and> WORD_N \<in> value_words k'"
    if "import_word x k = Inr k'"
      and "0 \<le> v \<and> val_n (bvalues k) = to_int32 (c_trunc v) \<and> WORD_N \<in> value_words k" for x k k'
    using import_word_n_case [where x = x and k = k] that by simp
qed

lemma to_int32_in_range: "- 2147483648 \<le> i \<Longrightarrow> i < 2147483648 \<Longrightarrow> to_int32 i = i"
  by (simp add: to_int32_def)

text \<open>
  The test of line 327 on the whole function. For a block that holds an N word, all of whose
  words are imported without error (so the value of N is not negative),
  \<^verbatim>\<open>gc_execute_line\<close> returns \<^verbatim>\<open>STATUS_GCODE_INVALID_LINE_NUMBER\<close> exactly when the
  32-bit value stored for N exceeds \<^verbatim>\<open>MAX_LINE_NUMBER\<close>, and then the state is left as it
  was; for a truncated value below \<open>2\<^sup>3\<^sup>1\<close> that is when the truncated value exceeds the
  limit. The test is the only place of \<^verbatim>\<open>gc_execute_line\<close> that returns this status;
  \<^verbatim>\<open>jog_execute\<close>, whose code is absent, is taken not to return it.
\<close>

lemma line_number_test:
  assumes "(CHR ''N'', Some v) \<in> set (gwords line)"
    and "import_words (gwords line) (init_locals (gc_state w) (jog line)) = Inr l"
    and "jog_execute_status env \<noteq> STATUS_GCODE_INVALID_LINE_NUMBER"
  shows "(fst (gc_execute_line env w line) = STATUS_GCODE_INVALID_LINE_NUMBER)
           = (MAX_LINE_NUMBER < to_int32 (c_trunc v))
         \<and> (MAX_LINE_NUMBER < to_int32 (c_trunc v) \<longrightarrow> snd (gc_execute_line env w line) = w)
         \<and> 0 \<le> v"
proof -
  from n_word_imported [OF assms(2,1)]
  have v: "0 \<le> v" and n: "val_n (bvalues l) = to_int32 (c_trunc v)"
    and N: "WORD_N \<in> value_words l"
    by simp_all
  show ?thesis
  proof (cases "error_check env w l")
    case (Inl e)
    with error_check_line_number [where env = env and w = w and l = l] n N assms(2) v show ?thesis
      by (simp add: gc_execute_line_def)
  next
    case (Inr l2)
    with error_check_line_number [where env = env and w = w and l = l] n N
    have small: "\<not> MAX_LINE_NUMBER < to_int32 (c_trunc v)" by simp
    have "fst (gc_execute_line env w line) \<noteq> STATUS_GCODE_INVALID_LINE_NUMBER"
      using Inr assms(2,3) execute_jog_status [of env l2 w] execute_block_status [of env l2 w]
      by (auto simp: gc_execute_line_def)
    with small v show ?thesis by simp
  qed
qed

lemma line_number_test_in_range:
  assumes "(CHR ''N'', Some v) \<in> set (gwords line)"
    and "import_words (gwords line) (init_locals (gc_state w) (jog line)) = Inr l"
    and "jog_execute_status env \<noteq> STATUS_GCODE_INVALID_LINE_NUMBER"
    and "c_trunc v < 2147483648"
  shows "(fst (gc_execute_line env w line) = STATUS_GCODE_INVALID_LINE_NUMBER)
           = (MAX_LINE_NUMBER < c_trunc v)"
proof -
  from line_number_test [OF assms(1-3)] have "0 \<le> v" by simp
  then have "- 2147483648 \<le> c_trunc v" by (simp add: c_trunc_def)
  with assms(4) have "to_int32 (c_trunc v) = c_trunc v" by (simp add: to_int32_in_range)
  with line_number_test [OF assms(1-3)] show ?thesis by simp
qed

lemma line_number_test_out_of_range:
  assumes "(CHR ''N'', Some v) \<in> set (gwords line)"
    and "import_words (gwords line) (init_locals (gc_state w) (jog line)) = Inr l"
    and "jog_execute_status env \<noteq> STATUS_GCODE_INVALID_LINE_NUMBER"
    and "2147483648 \<le> c_trunc v"
  shows "fst (gc_execute_line env w line) \<noteq> STATUS_GCODE_INVALID_LINE_NUMBER"
  using line_number_test [OF assms(1-3)] assms(4)
  by (simp add: to_int32_def MAX_LINE_NUMBER_def)

text \<open>
  C10. The claim: a block with an N word fails with
  \<^verbatim>\<open>STATUS_GCODE_INVALID_LINE_NUMBER\<close> exactly when the truncated value of N exceeds
  \<^verbatim>\<open>MAX_LINE_NUMBER\<close> (10000000), as the comment of line 326 says. The code stores the
  truncated value in the 32-bit field first (line 263) and tests the field (line 327):
  \<^verbatim>\<open>N10000001G0X1\<close> is rejected, but \<^verbatim>\<open>N3000000000G0X1\<close> is accepted and executed, and
  the line number of the parser state becomes -2147483648.
\<close>

theorem line_number_above_int32_accepted:
  "(let r = gc_execute_line plain_env stored_world
              (block [word (CHR ''N'') 3000000000, word (CHR ''G'') 0, word (CHR ''X'') 1])
    in MAX_LINE_NUMBER < c_trunc 3000000000
       \<and> fst r = STATUS_OK
       \<and> line_number (gc_state (snd r)) = - 2147483648
       \<and> fst (gc_execute_line plain_env stored_world
                (block [word (CHR ''N'') 10000001, word (CHR ''G'') 0, word (CHR ''X'') 1]))
           = STATUS_GCODE_INVALID_LINE_NUMBER)"
  by (simp add: gc_eval)

subsection \<open>Feed rate\<close>

lemma check_feed_rate_sticky:
  "(case check_feed_rate st l of Inl e \<Rightarrow> True | Inr l' \<Rightarrow>
      (feed_rate_mode (modal st) = FEED_RATE_MODE_UNITS_PER_MIN
         \<and> feed_rate_mode (bmodal l) = FEED_RATE_MODE_UNITS_PER_MIN
         \<and> WORD_F \<notin> value_words l \<longrightarrow> val_f (bvalues l') = feed_rate st))"
  by (simp add: check_feed_rate_def FEED_RATE_MODE_UNITS_PER_MIN_def FEED_RATE_MODE_INVERSE_TIME_def)

lemma check_before_motion_sticky:
  assumes "check_before_motion w l1 = Inr l2"
    and "feed_rate_mode (modal (gc_state w)) = FEED_RATE_MODE_UNITS_PER_MIN"
    and "feed_rate_mode (bmodal l1) = FEED_RATE_MODE_UNITS_PER_MIN"
    and "WORD_F \<notin> value_words l1"
  shows "val_f (bvalues l2) = feed_rate (gc_state w)"
proof -
  let ?l = "implicit_axis_command l1"
  have same: "value_words ?l = value_words l1" "bmodal ?l = bmodal l1"
    by (simp_all add: implicit_axis_command_def)
  from assms(1) obtain a b c d where
    a: "check_line_number ?l = Inr a" and b: "check_feed_rate (gc_state w) a = Inr b"
    and c: "check_dwell b = Inr c" and d: "check_coord_select w c = Inr d"
    and e: "check_non_modal w d = Inr l2"
    by (auto simp: check_before_motion_def and_then_def split: sum.splits)
  from a check_line_number_status [of ?l] have "a = ?l" by simp
  with b check_feed_rate_sticky [where st = "gc_state w" and l = ?l] same assms(2-4)
  have "val_f (bvalues b) = feed_rate (gc_state w)" by simp
  with c check_dwell_frame [where l = b] d check_coord_select_frame [where w = w and l = c]
    e check_non_modal_frame [where w = w and l = d]
  show ?thesis by simp
qed

lemma import_word_flags_case:
  "(case import_word x k of Inl e \<Rightarrow> True | Inr k' \<Rightarrow>
     gc_parser_flags k' = gc_parser_flags k)"
proof (cases "snd x")
  case None
  then show ?thesis by (simp add: import_word_def Let_def)
next
  case (Some v)
  show ?thesis
    using Some
      g_word_frame_case [where k = k and iv = "to_uint8 (c_trunc v)"
        and m = "to_uint16 (c_round (100 * (v - real (to_uint8 (c_trunc v)))))"]
      m_word_frame_case [where k = k and iv = "to_uint8 (c_trunc v)"
        and m = "to_uint16 (c_round (100 * (v - real (to_uint8 (c_trunc v)))))"]
      value_word_frame_case [where k = k and c = "fst x" and v = v and iv = "to_uint8 (c_trunc v)"]
    by (simp add: import_word_def Let_def split: sum.splits)
qed

lemma flags_imported:
  assumes "import_words ws (init_locals st j) = Inr l"
  shows "(GC_PARSER_JOG_MOTION \<in> gc_parser_flags l) = j"
proof (rule import_words_preserve [where P = "\<lambda>k. (GC_PARSER_JOG_MOTION \<in> gc_parser_flags k) = j"])
  show "import_words ws (init_locals st j) = Inr l" by fact
  show "(GC_PARSER_JOG_MOTION \<in> gc_parser_flags (init_locals st j)) = j"
    by (simp add: init_locals_def Let_def)
  show "(GC_PARSER_JOG_MOTION \<in> gc_parser_flags k') = j"
    if "import_word x k = Inr k'" and "(GC_PARSER_JOG_MOTION \<in> gc_parser_flags k) = j" for x k k'
    using import_word_flags_case [where x = x and k = k] that by simp
qed

lemma and_then_invariant:
  assumes "case r of Inl e \<Rightarrow> P e | Inr a \<Rightarrow> I a"
    and "\<And>a. I a \<Longrightarrow> case k a of Inl e \<Rightarrow> P e | Inr b \<Rightarrow> Q b"
  shows "case and_then r k of Inl e \<Rightarrow> P e | Inr b \<Rightarrow> Q b"
  using assms by (cases r) (simp_all add: and_then_def)

lemma seek_block_status:
  assumes "GC_PARSER_JOG_MOTION \<notin> gc_parser_flags l"
    and "motion (bmodal l) = MOTION_MODE_SEEK"
  shows "case error_check env w l of
           Inl e \<Rightarrow> e \<noteq> STATUS_GCODE_UNDEFINED_FEED_RATE
         | Inr l' \<Rightarrow> GC_PARSER_JOG_MOTION \<notin> gc_parser_flags l'"
  unfolding error_check_unfold
proof (rule and_then_invariant [where I = "\<lambda>a. GC_PARSER_JOG_MOTION \<notin> gc_parser_flags a
      \<and> motion (bmodal a) = MOTION_MODE_SEEK"], goal_cases)
  case 1
  from assms show ?case
    by (simp add: check_line_number_def implicit_axis_command_def)
next
  case (2 a)
  show ?case
  proof (rule and_then_invariant [where I = "\<lambda>a. GC_PARSER_JOG_MOTION \<notin> gc_parser_flags a
      \<and> motion (bmodal a) = MOTION_MODE_SEEK"], goal_cases)
    case 1
    from 2 show ?case by (simp add: check_feed_rate_def)
  next
    case (2 b)
    show ?case
    proof (rule and_then_invariant [where I = "\<lambda>a. GC_PARSER_JOG_MOTION \<notin> gc_parser_flags a
      \<and> motion (bmodal a) = MOTION_MODE_SEEK"], goal_cases)
      case 1
      from 2 show ?case by (simp add: check_dwell_def)
    next
      case (2 c)
      show ?case
      proof (rule and_then_invariant [where I = "\<lambda>a. GC_PARSER_JOG_MOTION \<notin> gc_parser_flags a
          \<and> motion (bmodal a) = MOTION_MODE_SEEK"], goal_cases)
        case 1
        from 2 show ?case by (simp add: check_coord_select_def Let_def split: option.split)
      next
        case (2 d)
        show ?case
        proof (rule and_then_invariant [where I = "\<lambda>a. GC_PARSER_JOG_MOTION \<notin> gc_parser_flags a
            \<and> motion (bmodal a) = MOTION_MODE_SEEK"], goal_cases)
          case 1
          from 2 show ?case
            by (simp add: check_non_modal_def check_g10_def g10_select_def check_target_def Let_def
                  split: option.split)
        next
          case (2 f)
          show ?case
          proof (rule and_then_invariant [where I = "\<lambda>a. GC_PARSER_JOG_MOTION \<notin> gc_parser_flags a"],
              goal_cases)
            case 1
            from 2 show ?case
              by (simp add: check_motion_modes_def MOTION_MODE_NONE_def MOTION_MODE_SEEK_def)
          next
            case (2 g)
            then show ?case by (simp add: check_unused_words_def Let_def)
          qed
        qed
      qed
    qed
  qed
qed

lemma seek_block_never_needs_feed:
  assumes "import_words (gwords line) (init_locals (gc_state w) (jog line)) = Inr l1"
    and "\<not> jog line" and "motion (bmodal l1) = MOTION_MODE_SEEK"
  shows "fst (gc_execute_line env w line) \<noteq> STATUS_GCODE_UNDEFINED_FEED_RATE"
proof -
  from flags_imported [OF assms(1)] assms(2)
  have nj: "GC_PARSER_JOG_MOTION \<notin> gc_parser_flags l1" by simp
  show ?thesis
  proof (cases "error_check env w l1")
    case (Inl e)
    with seek_block_status [OF nj assms(3), of env w] assms(1) show ?thesis
      by (simp add: gc_execute_line_def)
  next
    case (Inr l2)
    with seek_block_status [OF nj assms(3), of env w] assms(1)
      execute_block_status [of env l2 w]
    show ?thesis by (auto simp: gc_execute_line_def)
  qed
qed

text \<open>
  C5. Take a block whose words are imported without error (\<open>l1\<close> is the block after STEP 2).
  \<^item> If the block passes the checks that come before the motion modes (\<open>l2\<close> is the block when
    it reaches them), then: if the parser state and the block are both in G94 and the block
    has no F word, the feed rate of the block is the feed rate of the parser state; and if
    the block is a motion block in G1, G2 or G3 and its feed rate is 0, it fails with
    \<^verbatim>\<open>STATUS_GCODE_UNDEFINED_FEED_RATE\<close> and leaves the state as it was.
  \<^item> If the block is not a jog and its motion mode is G0, it does not fail with that status,
    whatever the feed rate is.
  \<^item> From the state that \<^verbatim>\<open>gc_init\<close> leaves, \<^verbatim>\<open>G0X1Y1\<close> is accepted, and \<^verbatim>\<open>G1X2\<close> after
    it fails with \<^verbatim>\<open>STATUS_GCODE_UNDEFINED_FEED_RATE\<close>.
\<close>

theorem feed_rate_rules:
  assumes "import_words (gwords line) (init_locals (gc_state w) (jog line)) = Inr l1"
  shows "(\<forall>l2. check_before_motion w l1 = Inr l2 \<longrightarrow>
            (feed_rate_mode (modal (gc_state w)) = FEED_RATE_MODE_UNITS_PER_MIN
               \<and> feed_rate_mode (bmodal l1) = FEED_RATE_MODE_UNITS_PER_MIN
               \<and> WORD_F \<notin> value_words l1
             \<longrightarrow> val_f (bvalues l2) = feed_rate (gc_state w))
          \<and> (axis_command l2 = AXIS_COMMAND_MOTION_MODE
               \<and> motion (bmodal l2) \<in> {MOTION_MODE_LINEAR, MOTION_MODE_CW_ARC, MOTION_MODE_CCW_ARC}
               \<and> val_f (bvalues l2) = 0
             \<longrightarrow> gc_execute_line env w line = (STATUS_GCODE_UNDEFINED_FEED_RATE, w)))
       \<and> (\<not> jog line \<and> motion (bmodal l1) = MOTION_MODE_SEEK
          \<longrightarrow> fst (gc_execute_line env w line) \<noteq> STATUS_GCODE_UNDEFINED_FEED_RATE)
       \<and> (let r = gc_execute_line env0 (gc_init w0)
                     (block [word (CHR ''G'') 0, word (CHR ''X'') 1, word (CHR ''Y'') 1])
          in fst r = STATUS_OK
             \<and> gc_execute_line env0 (snd r) (block [word (CHR ''G'') 1, word (CHR ''X'') 2])
                 = (STATUS_GCODE_UNDEFINED_FEED_RATE, snd r))"
proof (intro conjI impI allI)
  fix l2
  assume "check_before_motion w l1 = Inr l2"
    and "feed_rate_mode (modal (gc_state w)) = FEED_RATE_MODE_UNITS_PER_MIN
            \<and> feed_rate_mode (bmodal l1) = FEED_RATE_MODE_UNITS_PER_MIN
            \<and> WORD_F \<notin> value_words l1"
  then show "val_f (bvalues l2) = feed_rate (gc_state w)"
    by (simp add: check_before_motion_sticky)
next
  fix l2
  assume pre: "check_before_motion w l1 = Inr l2"
    and a: "axis_command l2 = AXIS_COMMAND_MOTION_MODE
            \<and> motion (bmodal l2) \<in> {MOTION_MODE_LINEAR, MOTION_MODE_CW_ARC, MOTION_MODE_CCW_ARC}
            \<and> val_f (bvalues l2) = 0"
  then have "check_motion_modes env (gc_state w) l2 = Inl STATUS_GCODE_UNDEFINED_FEED_RATE"
    by (auto simp: check_motion_modes_def gc_consts)
  with assms pre show "gc_execute_line env w line = (STATUS_GCODE_UNDEFINED_FEED_RATE, w)"
    by (rule gc_execute_line_check_fails)
next
  assume "\<not> jog line \<and> motion (bmodal l1) = MOTION_MODE_SEEK"
  with assms show "fst (gc_execute_line env w line) \<noteq> STATUS_GCODE_UNDEFINED_FEED_RATE"
    by (simp add: seek_block_never_needs_feed)
next
  show "let r = gc_execute_line env0 (gc_init w0)
                     (block [word (CHR ''G'') 0, word (CHR ''X'') 1, word (CHR ''Y'') 1])
          in fst r = STATUS_OK
             \<and> gc_execute_line env0 (snd r) (block [word (CHR ''G'') 1, word (CHR ''X'') 2])
                 = (STATUS_GCODE_UNDEFINED_FEED_RATE, snd r)"
    by (simp add: gc_eval split: option.split)
qed

text \<open>
  The theorem at \<^verbatim>\<open>G1X2\<close> and at \<^verbatim>\<open>G0X1Y1\<close>, from the zero state with feed rate 0.
\<close>

theorem feed_rate_rules_witness:
  "gc_execute_line plain_env stored_world (block [word (CHR ''G'') 1, word (CHR ''X'') 2])
     = (STATUS_GCODE_UNDEFINED_FEED_RATE, stored_world)
   \<and> fst (gc_execute_line plain_env stored_world
            (block [word (CHR ''G'') 0, word (CHR ''X'') 1, word (CHR ''Y'') 1]))
       \<noteq> STATUS_GCODE_UNDEFINED_FEED_RATE"
proof
  obtain l1 l2 where l: "import_words (gwords (block [word (CHR ''G'') 1, word (CHR ''X'') 2]))
        (init_locals (gc_state stored_world) (jog (block [word (CHR ''G'') 1, word (CHR ''X'') 2])))
        = Inr l1"
      "check_before_motion stored_world l1 = Inr l2"
      "feed_rate_mode (bmodal l1) = FEED_RATE_MODE_UNITS_PER_MIN" "WORD_F \<notin> value_words l1"
      "axis_command l2 = AXIS_COMMAND_MOTION_MODE" "motion (bmodal l2) = MOTION_MODE_LINEAR"
    by (simp add: gc_eval)
  from feed_rate_rules [OF l(1), of plain_env, THEN conjunct1, rule_format, OF l(2)] l(3-)
  show "gc_execute_line plain_env stored_world (block [word (CHR ''G'') 1, word (CHR ''X'') 2])
     = (STATUS_GCODE_UNDEFINED_FEED_RATE, stored_world)"
    by (simp add: stored_world_def blank_state_def FEED_RATE_MODE_UNITS_PER_MIN_def)
  obtain k1 where k: "import_words
        (gwords (block [word (CHR ''G'') 0, word (CHR ''X'') 1, word (CHR ''Y'') 1]))
        (init_locals (gc_state stored_world)
           (jog (block [word (CHR ''G'') 0, word (CHR ''X'') 1, word (CHR ''Y'') 1])))
        = Inr k1"
      "motion (bmodal k1) = MOTION_MODE_SEEK"
    by (simp add: gc_eval)
  from feed_rate_rules [OF k(1), of plain_env, THEN conjunct2, THEN conjunct1] k(2)
  show "fst (gc_execute_line plain_env stored_world
            (block [word (CHR ''G'') 0, word (CHR ''X'') 1, word (CHR ''Y'') 1]))
       \<noteq> STATUS_GCODE_UNDEFINED_FEED_RATE"
    by (simp add: block_def)
qed

subsection \<open>Arcs given by the offsets of the centre\<close>

lemma sqrt_of_square: "0 \<le> y \<Longrightarrow> y * y = x \<Longrightarrow> sqrt x = y"
  by (rule real_sqrt_unique) (simp_all add: power2_eq_square)

lemma offset_arc_check:
  assumes "motion (bmodal l2) = MOTION_MODE_CW_ARC \<or> motion (bmodal l2) = MOTION_MODE_CCW_ARC"
    and "axis_command l2 = AXIS_COMMAND_MOTION_MODE"
    and "val_f (bvalues l2) \<noteq> 0"
    and "axis_words l2 \<inter> {X_AXIS, Y_AXIS} \<noteq> {}"
    and "WORD_R \<notin> value_words l2"
    and "axis_0 env = X_AXIS" and "axis_1 env = Y_AXIS"
  shows "(case check_motion_modes env st l2 of
            Inl e \<Rightarrow> e = STATUS_GCODE_INVALID_TARGET
          | Inr l3 \<Rightarrow> True)
       \<and> (check_motion_modes env st l2 = Inl STATUS_GCODE_INVALID_TARGET) =
         (let i = val_ijk (bvalues l2) ! X_AXIS;
              j = val_ijk (bvalues l2) ! Y_AXIS;
              x = val_xyz (bvalues l2) ! X_AXIS - position st ! X_AXIS;
              y = val_xyz (bvalues l2) ! Y_AXIS - position st ! Y_AXIS;
              r = hypot_f i j;
              target_r = hypot_f (x - i) (y - j);
              delta_r = \<bar>target_r - r\<bar>
          in delta_r > 0.005 \<and> (delta_r > 0.5 \<or> delta_r > 0.001 * r))"
proof -
  from assms(4) have nonempty: "axis_words l2 \<noteq> {}" by auto
  from assms(1) show ?thesis
  proof
    assume "motion (bmodal l2) = MOTION_MODE_CW_ARC"
    with assms(2-) nonempty show ?thesis
      by (simp add: check_motion_modes_def check_arc_def arc_offset_mode_def Let_def
            MOTION_MODE_NONE_def MOTION_MODE_SEEK_def MOTION_MODE_LINEAR_def
            MOTION_MODE_CW_ARC_def MOTION_MODE_CCW_ARC_def)
  next
    assume "motion (bmodal l2) = MOTION_MODE_CCW_ARC"
    with assms(2-) nonempty show ?thesis
      by (simp add: check_motion_modes_def check_arc_def arc_offset_mode_def Let_def
            MOTION_MODE_NONE_def MOTION_MODE_SEEK_def MOTION_MODE_LINEAR_def
            MOTION_MODE_CW_ARC_def MOTION_MODE_CCW_ARC_def)
  qed
qed

text \<open>
  C2 as stated fails. The claim accepts an arc only if the two radii differ by at most
  0.005 and by at most 0.1 percent of the radius. The code (lines 629 to 632) tests the
  percentage only when the difference is above 0.005: \<^verbatim>\<open>G2X2.004I1F100\<close> from the origin
  has radii 1 and 1.004, which differ by 0.4 percent, and is accepted; and
  \<^verbatim>\<open>G2X200.01I100F100\<close> has radii 100 and 100.01, which differ by more than 0.005, and
  is accepted.
\<close>

theorem offset_arc_claimed_bounds_fail:
  "(let r = hypot_f 1 0; target_r = hypot_f (2.004 - 1) 0
    in \<bar>target_r - r\<bar> > 0.001 * r
       \<and> fst (gc_execute_line plain_env stored_world
                (block [word (CHR ''G'') 2, word (CHR ''X'') 2.004, word (CHR ''I'') 1,
                        word (CHR ''F'') 100])) = STATUS_OK)
   \<and> (let r = hypot_f 100 0; target_r = hypot_f (200.01 - 100) 0
    in \<bar>target_r - r\<bar> > 0.005
       \<and> fst (gc_execute_line plain_env stored_world
                (block [word (CHR ''G'') 2, word (CHR ''X'') 200.01, word (CHR ''I'') 100,
                        word (CHR ''F'') 100])) = STATUS_OK)"
proof -
  have a: "sqrt (63001 / 62500) = 251 / 250" by (rule sqrt_of_square) simp_all
  have b: "sqrt (100020001 / 10000) = 10001 / 100" by (rule sqrt_of_square) simp_all
  show ?thesis by (simp add: gc_eval a b)
qed

text \<open>
  C2, amended. Take a G2 or G3 motion block without an R word, with an axis word in the
  plane and a feed rate, that is imported without error and passes the checks before the
  motion modes; let the unassigned locals \<^verbatim>\<open>axis_0\<close> and \<^verbatim>\<open>axis_1\<close> hold X and Y. With
  \<open>r\<close> the distance from the centre to the current position and \<open>target_r\<close> the distance
  from the centre to the target, the block fails with \<^verbatim>\<open>STATUS_GCODE_INVALID_TARGET\<close>
  exactly when \<open>\<bar>target_r - r\<bar>\<close> is above 0.005 and, besides, above 0.5 or above 0.1
  percent of \<open>r\<close>; the state is then left as it was. (\<^verbatim>\<open>jog_execute\<close>, whose code is
  absent, is taken not to return that status.)
\<close>

theorem offset_arc_acceptance:
  assumes "import_words (gwords line) (init_locals (gc_state w) (jog line)) = Inr l1"
    and "check_before_motion w l1 = Inr l2"
    and "motion (bmodal l2) = MOTION_MODE_CW_ARC \<or> motion (bmodal l2) = MOTION_MODE_CCW_ARC"
    and "axis_command l2 = AXIS_COMMAND_MOTION_MODE"
    and "val_f (bvalues l2) \<noteq> 0"
    and "axis_words l2 \<inter> {X_AXIS, Y_AXIS} \<noteq> {}"
    and "WORD_R \<notin> value_words l2"
    and "axis_0 env = X_AXIS" and "axis_1 env = Y_AXIS"
    and "jog_execute_status env \<noteq> STATUS_GCODE_INVALID_TARGET"
  shows "(fst (gc_execute_line env w line) = STATUS_GCODE_INVALID_TARGET) =
         (let i = val_ijk (bvalues l2) ! X_AXIS;
              j = val_ijk (bvalues l2) ! Y_AXIS;
              x = val_xyz (bvalues l2) ! X_AXIS - position (gc_state w) ! X_AXIS;
              y = val_xyz (bvalues l2) ! Y_AXIS - position (gc_state w) ! Y_AXIS;
              r = hypot_f i j;
              target_r = hypot_f (x - i) (y - j);
              delta_r = \<bar>target_r - r\<bar>
          in delta_r > 0.005 \<and> (delta_r > 0.5 \<or> delta_r > 0.001 * r))
       \<and> (fst (gc_execute_line env w line) = STATUS_GCODE_INVALID_TARGET
            \<longrightarrow> snd (gc_execute_line env w line) = w)"
proof (cases "check_motion_modes env (gc_state w) l2")
  case (Inl e)
  with offset_arc_check [OF assms(3-9), of "gc_state w"]
  have e: "e = STATUS_GCODE_INVALID_TARGET" by simp
  from gc_execute_line_check_fails [OF assms(1,2) Inl] e
    offset_arc_check [OF assms(3-9), of "gc_state w"] Inl
  show ?thesis by simp
next
  case (Inr l3)
  from gc_execute_line_check_passes [OF assms(1,2) Inr] assms(10)
  have "fst (gc_execute_line env w line) \<noteq> STATUS_GCODE_INVALID_TARGET" by auto
  with offset_arc_check [OF assms(3-9), of "gc_state w"] Inr
  show ?thesis by simp
qed

text \<open>
  The theorem at \<^verbatim>\<open>G2X3I1F100\<close> (radii 1 and 2), which is rejected, and at the block
  \<^verbatim>\<open>G2X10Y0I5J0.1F100\<close> of the spec's fourth scenario, whose two radii are equal and
  which is not rejected.
\<close>

theorem offset_arc_acceptance_witness:
  "fst (gc_execute_line plain_env stored_world
          (block [word (CHR ''G'') 2, word (CHR ''X'') 3, word (CHR ''I'') 1,
                  word (CHR ''F'') 100])) = STATUS_GCODE_INVALID_TARGET
   \<and> fst (gc_execute_line plain_env stored_world
          (block [word (CHR ''G'') 2, word (CHR ''X'') 10, word (CHR ''Y'') 0,
                  word (CHR ''I'') 5, word (CHR ''J'') 0.1, word (CHR ''F'') 100]))
       \<noteq> STATUS_GCODE_INVALID_TARGET"
proof
  obtain l1 l2 where l: "import_words
        (gwords (block [word (CHR ''G'') 2, word (CHR ''X'') 3, word (CHR ''I'') 1,
                        word (CHR ''F'') 100]))
        (init_locals (gc_state stored_world)
           (jog (block [word (CHR ''G'') 2, word (CHR ''X'') 3, word (CHR ''I'') 1,
                        word (CHR ''F'') 100]))) = Inr l1"
      "check_before_motion stored_world l1 = Inr l2"
      "motion (bmodal l2) = MOTION_MODE_CW_ARC \<or> motion (bmodal l2) = MOTION_MODE_CCW_ARC"
      "axis_command l2 = AXIS_COMMAND_MOTION_MODE"
      "val_f (bvalues l2) \<noteq> 0"
      "axis_words l2 \<inter> {X_AXIS, Y_AXIS} \<noteq> {}"
      "WORD_R \<notin> value_words l2"
      and v: "val_ijk (bvalues l2) = [1, 0]" "val_xyz (bvalues l2) = [3, 0]"
    by (simp add: gc_eval)
  have s: "sqrt 4 = 2" by (rule sqrt_of_square) simp_all
  from offset_arc_acceptance [OF l, of plain_env] v s
  show "fst (gc_execute_line plain_env stored_world
          (block [word (CHR ''G'') 2, word (CHR ''X'') 3, word (CHR ''I'') 1,
                  word (CHR ''F'') 100])) = STATUS_GCODE_INVALID_TARGET"
    by (simp add: plain_env_def stored_world_def blank_state_def X_AXIS_def Y_AXIS_def
          hypot_f_def Let_def)
  obtain k1 k2 where k: "import_words
        (gwords (block [word (CHR ''G'') 2, word (CHR ''X'') 10, word (CHR ''Y'') 0,
                  word (CHR ''I'') 5, word (CHR ''J'') 0.1, word (CHR ''F'') 100]))
        (init_locals (gc_state stored_world)
           (jog (block [word (CHR ''G'') 2, word (CHR ''X'') 10, word (CHR ''Y'') 0,
                  word (CHR ''I'') 5, word (CHR ''J'') 0.1, word (CHR ''F'') 100]))) = Inr k1"
      "check_before_motion stored_world k1 = Inr k2"
      "motion (bmodal k2) = MOTION_MODE_CW_ARC \<or> motion (bmodal k2) = MOTION_MODE_CCW_ARC"
      "axis_command k2 = AXIS_COMMAND_MOTION_MODE"
      "val_f (bvalues k2) \<noteq> 0"
      "axis_words k2 \<inter> {X_AXIS, Y_AXIS} \<noteq> {}"
      "WORD_R \<notin> value_words k2"
      and u: "val_ijk (bvalues k2) = [5, 0.1]" "val_xyz (bvalues k2) = [10, 0]"
    by (simp add: gc_eval)
  from offset_arc_acceptance [OF k, of plain_env] u
  show "fst (gc_execute_line plain_env stored_world
          (block [word (CHR ''G'') 2, word (CHR ''X'') 10, word (CHR ''Y'') 0,
                  word (CHR ''I'') 5, word (CHR ''J'') 0.1, word (CHR ''F'') 100]))
       \<noteq> STATUS_GCODE_INVALID_TARGET"
    by (simp add: plain_env_def stored_world_def blank_state_def X_AXIS_def Y_AXIS_def
          hypot_f_def Let_def)
qed

subsection \<open>Arcs given by their radius\<close>

lemma value_word_xyz_length:
  "(case value_word c v iv k of Inl e \<Rightarrow> True | Inr k' \<Rightarrow>
     length (val_xyz (bvalues k')) = length (val_xyz (bvalues k)))"
  by (simp add: value_word_def value_command_def)

lemma import_word_xyz_length:
  "(case import_word x k of Inl e \<Rightarrow> True | Inr k' \<Rightarrow>
     length (val_xyz (bvalues k')) = length (val_xyz (bvalues k)))"
proof (cases "snd x")
  case None
  then show ?thesis by (simp add: import_word_def Let_def)
next
  case (Some v)
  show ?thesis
    using Some
      g_word_frame_case [where k = k and iv = "to_uint8 (c_trunc v)"
        and m = "to_uint16 (c_round (100 * (v - real (to_uint8 (c_trunc v)))))"]
      m_word_frame_case [where k = k and iv = "to_uint8 (c_trunc v)"
        and m = "to_uint16 (c_round (100 * (v - real (to_uint8 (c_trunc v)))))"]
      value_word_xyz_length [where k = k and c = "fst x" and v = v and iv = "to_uint8 (c_trunc v)"]
    by (simp add: import_word_def Let_def split: sum.splits)
qed

lemma xyz_length_imported:
  assumes "import_words ws (init_locals st j) = Inr l"
  shows "length (val_xyz (bvalues l)) = N_AXIS"
proof (rule import_words_preserve [where P = "\<lambda>k. length (val_xyz (bvalues k)) = N_AXIS"])
  show "import_words ws (init_locals st j) = Inr l" by fact
  show "length (val_xyz (bvalues (init_locals st j))) = N_AXIS"
    by (simp add: init_locals_def zero_vector_def Let_def)
  show "length (val_xyz (bvalues k')) = N_AXIS"
    if "import_word x k = Inr k'" and "length (val_xyz (bvalues k)) = N_AXIS" for x k k'
    using import_word_xyz_length [where x = x and k = k] that by simp
qed

lemma target_position_length:
  "length (target_position st l) = length (val_xyz (bvalues l))"
  by (simp add: target_position_def axis_indices_eq)

lemma check_feed_rate_xyz:
  "(case check_feed_rate st l of Inl e \<Rightarrow> True | Inr l' \<Rightarrow>
      val_xyz (bvalues l') = val_xyz (bvalues l))"
  by (simp add: check_feed_rate_def)

lemma check_non_modal_xyz_length:
  "(case check_non_modal w l of Inl e \<Rightarrow> True | Inr l' \<Rightarrow>
      length (val_xyz (bvalues l')) = length (val_xyz (bvalues l)))"
  by (simp add: check_non_modal_def check_g10_def g10_select_def check_target_def Let_def
        target_position_length split: option.split)

lemma check_before_motion_xyz_length:
  assumes "check_before_motion w l1 = Inr l2"
  shows "length (val_xyz (bvalues l2)) = length (val_xyz (bvalues l1))"
proof -
  let ?l = "implicit_axis_command l1"
  have same: "bvalues ?l = bvalues l1"
    by (simp add: implicit_axis_command_def)
  from assms obtain a b c d where
    a: "check_line_number ?l = Inr a" and b: "check_feed_rate (gc_state w) a = Inr b"
    and c: "check_dwell b = Inr c" and d: "check_coord_select w c = Inr d"
    and e: "check_non_modal w d = Inr l2"
    by (auto simp: check_before_motion_def and_then_def split: sum.splits)
  from a check_line_number_status [of ?l] have "a = ?l" by simp
  with b check_feed_rate_xyz [where st = "gc_state w" and l = ?l] same
    c check_dwell_frame [where l = b] d check_coord_select_frame [where w = w and l = c]
    e check_non_modal_xyz_length [where w = w and l = d]
  show ?thesis by simp
qed

lemma two_vectors_equal:
  assumes "length a = N_AXIS" and "length b = N_AXIS"
  shows "(a = b) = (b ! X_AXIS - a ! X_AXIS = (0::real) \<and> b ! Y_AXIS - a ! Y_AXIS = 0)"
proof -
  from assms obtain a0 a1 b0 b1 where "a = [a0, a1]" "b = [b0, b1]"
    by (auto simp: N_AXIS_def length_Suc_conv numeral_2_eq_2)
  then show ?thesis by (auto simp: X_AXIS_def Y_AXIS_def)
qed


lemma hypot_f_square: "hypot_f x y * hypot_f x y = x * x + y * y"
proof -
  have "0 \<le> x * x + y * y" by simp
  then have "sqrt (x * x + y * y) * sqrt (x * x + y * y) = x * x + y * y"
    by simp
  then show ?thesis by (simp only: hypot_f_def)
qed

lemma hypot_f_pos: "x \<noteq> 0 \<or> y \<noteq> 0 \<Longrightarrow> 0 < hypot_f x y"
  unfolding hypot_f_def by (auto intro!: real_sqrt_gt_zero simp: add_nonneg_eq_0_iff sum_squares_gt_zero_iff)

lemma arc_center_facts:
  fixes x y r s :: real
  assumes d: "x \<noteq> 0 \<or> y \<noteq> 0" and h0: "0 \<le> 4 * r * r - x * x - y * y" and s: "s * s = 1"
  defines "h \<equiv> s * (sqrt (4 * r * r - x * x - y * y) / hypot_f x y)"
  defines "i \<equiv> 0.5 * (x - y * h)" and "j \<equiv> 0.5 * (y + x * h)"
  shows "i * i + j * j = r * r"
    and "(x - i) * (x - i) + (y - j) * (y - j) = r * r"
    and "chord_side x y i j = s * (sqrt (4 * r * r - x * x - y * y) * hypot_f x y / 2)"
    and "r \<noteq> 0"
proof -
  let ?D = "hypot_f x y" and ?S = "sqrt (4 * r * r - x * x - y * y)"
  have D: "0 < ?D" using d by (rule hypot_f_pos)
  have DD: "?D * ?D = x * x + y * y" by (rule hypot_f_square)
  have SS: "?S * ?S = 4 * r * r - x * x - y * y" using h0 by simp
  have hD: "h * ?D = s * ?S" using D by (simp add: h_def)
  have "(h * ?D) * (h * ?D) = (s * s) * (?S * ?S)" unfolding hD by (simp add: algebra_simps)
  then have hh: "h * h * (x * x + y * y) = 4 * r * r - x * x - y * y"
    using s SS DD by (simp add: algebra_simps)
  have "4 * (i * i + j * j) = x * x + y * y + h * h * (x * x + y * y)"
    by (simp add: i_def j_def field_simps)
  with hh show "i * i + j * j = r * r" by simp
  have "4 * ((x - i) * (x - i) + (y - j) * (y - j)) = x * x + y * y + h * h * (x * x + y * y)"
    by (simp add: i_def j_def field_simps)
  with hh show "(x - i) * (x - i) + (y - j) * (y - j) = r * r" by simp
  have c1: "chord_side x y i j = h * (x * x + y * y) / 2"
    by (simp add: chord_side_def i_def j_def field_simps)
  have "h * (x * x + y * y) = (h * ?D) * ?D"
    by (simp only: DD [symmetric] mult.assoc)
  with c1 show "chord_side x y i j = s * (?S * ?D / 2)" by (simp add: hD)
  show "r \<noteq> 0"
  proof
    assume "r = 0"
    with h0 have "x * x + y * y \<le> 0" by simp
    with d show False by (simp add: sum_squares_le_zero_iff [unfolded power2_eq_square] not_le sum_squares_gt_zero_iff)
  qed
qed


lemma arc_radius_mode_result:
  "arc_radius_mode env st x y l =
     (if position st = val_xyz (bvalues l) then Inl STATUS_GCODE_INVALID_TARGET
      else if 4 * val_r (bvalues l) * val_r (bvalues l) - x * x - y * y < 0
      then Inl STATUS_GCODE_ARC_RADIUS_ERROR
      else
        (let h = (if val_r (bvalues l) < 0 then - 1 else 1)
                 * (if motion (bmodal l) = MOTION_MODE_CCW_ARC then 1 else - 1)
                 * (sqrt (4 * val_r (bvalues l) * val_r (bvalues l) - x * x - y * y)
                      / hypot_f x y)
         in Inr (l\<lparr>value_words := value_words l - {WORD_R},
                   bvalues := (bvalues l)
                     \<lparr>val_r := \<bar>val_r (bvalues l)\<bar>,
                      val_ijk := (val_ijk (bvalues l))
                        [axis_0 env := 0.5 * (x - y * h), axis_1 env := 0.5 * (y + x * h)]\<rparr>\<rparr>)))"
  by (simp add: arc_radius_mode_def isequal_position_vector_def Let_def)

lemma radius_arc_check:
  assumes "motion (bmodal l2) = MOTION_MODE_CW_ARC \<or> motion (bmodal l2) = MOTION_MODE_CCW_ARC"
    and "axis_command l2 = AXIS_COMMAND_MOTION_MODE"
    and "val_f (bvalues l2) \<noteq> 0"
    and "axis_words l2 \<inter> {X_AXIS, Y_AXIS} \<noteq> {}"
    and "WORD_R \<in> value_words l2"
    and "axis_0 env = X_AXIS" and "axis_1 env = Y_AXIS"
  shows "check_motion_modes env st l2 =
           arc_radius_mode env st
             (val_xyz (bvalues l2) ! X_AXIS - position st ! X_AXIS)
             (val_xyz (bvalues l2) ! Y_AXIS - position st ! Y_AXIS)
             (if motion (bmodal l2) = MOTION_MODE_CW_ARC
              then l2\<lparr>gc_parser_flags := insert GC_PARSER_ARC_IS_CLOCKWISE (gc_parser_flags l2)\<rparr>
              else l2)"
proof -
  from assms(4) have nonempty: "axis_words l2 \<noteq> {}" by auto
  from assms(1) show ?thesis
  proof
    assume "motion (bmodal l2) = MOTION_MODE_CW_ARC"
    with assms(2-) nonempty show ?thesis
      by (auto simp: check_motion_modes_def check_arc_def Let_def
            MOTION_MODE_NONE_def MOTION_MODE_SEEK_def MOTION_MODE_LINEAR_def
            MOTION_MODE_CW_ARC_def MOTION_MODE_CCW_ARC_def)
  next
    assume "motion (bmodal l2) = MOTION_MODE_CCW_ARC"
    with assms(2-) nonempty show ?thesis
      by (auto simp: check_motion_modes_def check_arc_def Let_def
            MOTION_MODE_NONE_def MOTION_MODE_SEEK_def MOTION_MODE_LINEAR_def
            MOTION_MODE_CW_ARC_def MOTION_MODE_CCW_ARC_def)
  qed
qed

lemma execute_program_flow_calls:
  "set (calls w) \<subseteq> set (calls (snd (execute_program_flow env l w)))"
  by (auto simp: execute_program_flow_def Let_def split: option.split)

lemma execute_motion_arc_call:
  assumes "motion (bmodal l) = MOTION_MODE_CW_ARC \<or> motion (bmodal l) = MOTION_MODE_CCW_ARC"
    and "axis_command l = AXIS_COMMAND_MOTION_MODE"
  shows "Mc_arc (val_xyz (bvalues l)) pl (position (gc_state w)) (val_ijk (bvalues l))
           (val_r (bvalues l)) (axis_0 env) (axis_1 env) (axis_linear env)
           (GC_PARSER_ARC_IS_CLOCKWISE \<in> gc_parser_flags l)
         \<in> set (calls (execute_motion env l pl w))"
  using assms
  by (auto simp: execute_motion_def Let_def MOTION_MODE_NONE_def MOTION_MODE_SEEK_def
        MOTION_MODE_LINEAR_def MOTION_MODE_CW_ARC_def MOTION_MODE_CCW_ARC_def)

lemma execute_modes_position:
  "position (gc_state (execute_non_modal l (fst (execute_modes l w)))) = position (gc_state w)"
  by (simp add: execute_non_modal_def execute_modes_def settings_write_coord_data_def Let_def)

lemma execute_block_arc_call:
  assumes "motion (bmodal l) = MOTION_MODE_CW_ARC \<or> motion (bmodal l) = MOTION_MODE_CCW_ARC"
    and "axis_command l = AXIS_COMMAND_MOTION_MODE"
  shows "Mc_arc (val_xyz (bvalues l)) (snd (execute_modes l w)) (position (gc_state w))
           (val_ijk (bvalues l)) (val_r (bvalues l)) (axis_0 env) (axis_1 env) (axis_linear env)
           (GC_PARSER_ARC_IS_CLOCKWISE \<in> gc_parser_flags l)
         \<in> set (calls (snd (execute_block env l w)))"
proof -
  let ?w2 = "execute_non_modal l (fst (execute_modes l w))"
  let ?pl = "snd (execute_modes l w)"
  have "execute_block env l w = execute_program_flow env l (execute_motion env l ?pl ?w2)"
    by (simp add: execute_block_def Let_def split: prod.split)
  with execute_motion_arc_call [OF assms, of ?pl ?w2 env]
    execute_program_flow_calls [of "execute_motion env l ?pl ?w2" env l]
  show ?thesis by (auto simp: execute_modes_position)
qed


lemma check_unused_words_frame:
  "(case check_unused_words l of Inl e \<Rightarrow> True | Inr l' \<Rightarrow>
      bvalues l' = bvalues l \<and> bmodal l' = bmodal l \<and> axis_command l' = axis_command l
      \<and> gc_parser_flags l' = gc_parser_flags l)"
  by (simp add: check_unused_words_def Let_def)

lemma gc_execute_line_executes:
  assumes "import_words (gwords line) (init_locals (gc_state w) (jog line)) = Inr l1"
    and "check_before_motion w l1 = Inr l2"
    and "check_motion_modes env (gc_state w) l2 = Inr l3"
    and "check_unused_words l3 = Inr l4"
    and "GC_PARSER_JOG_MOTION \<notin> gc_parser_flags l4"
  shows "gc_execute_line env w line = execute_block env l4 w"
  using assms by (simp add: gc_execute_line_def error_check_after and_then_def)

lemma clockwise_flag_imported:
  assumes "import_words ws (init_locals st j) = Inr l"
  shows "GC_PARSER_ARC_IS_CLOCKWISE \<notin> gc_parser_flags l"
proof (rule import_words_preserve
    [where P = "\<lambda>k. GC_PARSER_ARC_IS_CLOCKWISE \<notin> gc_parser_flags k"])
  show "import_words ws (init_locals st j) = Inr l" by fact
  show "GC_PARSER_ARC_IS_CLOCKWISE \<notin> gc_parser_flags (init_locals st j)"
    by (simp add: init_locals_def Let_def)
  show "GC_PARSER_ARC_IS_CLOCKWISE \<notin> gc_parser_flags k'"
    if "import_word x k = Inr k'" and "GC_PARSER_ARC_IS_CLOCKWISE \<notin> gc_parser_flags k"
    for x k k'
    using import_word_flags_case [where x = x and k = k] that by simp
qed

lemma check_feed_rate_flags:
  "(case check_feed_rate st l of Inl e \<Rightarrow> True | Inr l' \<Rightarrow>
      gc_parser_flags l' = gc_parser_flags l)"
  by (simp add: check_feed_rate_def)

lemma check_before_motion_flags:
  assumes "check_before_motion w l1 = Inr l2"
  shows "gc_parser_flags l2 = gc_parser_flags l1"
proof -
  let ?l = "implicit_axis_command l1"
  have same: "gc_parser_flags ?l = gc_parser_flags l1"
    by (simp add: implicit_axis_command_def)
  from assms obtain a b c d where
    a: "check_line_number ?l = Inr a" and b: "check_feed_rate (gc_state w) a = Inr b"
    and c: "check_dwell b = Inr c" and d: "check_coord_select w c = Inr d"
    and e: "check_non_modal w d = Inr l2"
    by (auto simp: check_before_motion_def and_then_def split: sum.splits)
  from a check_line_number_status [of ?l] have "a = ?l" by simp
  with b check_feed_rate_flags [where st = "gc_state w" and l = ?l] same
  have "gc_parser_flags b = gc_parser_flags l1" by simp
  with c check_dwell_frame [where l = b] d check_coord_select_frame [where w = w and l = c]
    e check_non_modal_frame [where w = w and l = d]
  show ?thesis by simp
qed

text \<open>
  The arc checks when the unassigned locals happen to hold the plane. Take a G2 or G3 motion block with an R word, an axis word in the plane and a feed rate,
  that is imported without error and passes the checks before the motion modes; let the
  unassigned locals \<^verbatim>\<open>axis_0\<close> and \<^verbatim>\<open>axis_1\<close> hold X and Y and the position have
  \<^verbatim>\<open>N_AXIS\<close> entries. With \<open>(x, y)\<close> the chord from the current position to the target and
  \<open>r\<close> the value of R:
  \<^item> if the target is the current position, the block fails with
    \<^verbatim>\<open>STATUS_GCODE_INVALID_TARGET\<close>;
  \<^item> the block fails with \<^verbatim>\<open>STATUS_GCODE_ARC_RADIUS_ERROR\<close> exactly when
    \<open>4 r\<^sup>2 - x\<^sup>2 - y\<^sup>2 < 0\<close>, and the state is then left as it was (\<^verbatim>\<open>jog_execute\<close>,
    whose code is absent, is taken not to return that status);
  \<^item> otherwise the arc check passes: the radius handed on is \<open>\<bar>r\<bar>\<close> and is positive; the
    centre \<open>(i, j)\<close>, stored as the offsets of the block, lies at distance \<open>\<bar>r\<bar>\<close> from the
    current position and from the target; the side of the chord on which it lies is given by
    the sign of R and the direction of the arc, so a negative R puts the centre on the side
    opposite to the one a positive R of the same size gives; and when the block goes on to
    execution as a normal block, \<^verbatim>\<open>mc_arc\<close> is called with the radius \<open>\<bar>r\<bar>\<close>, clockwise
    exactly for G2.
\<close>

lemma radius_arc_checks_in_plane:
  assumes "import_words (gwords line) (init_locals (gc_state w) (jog line)) = Inr l1"
    and "check_before_motion w l1 = Inr l2"
    and "motion (bmodal l2) = MOTION_MODE_CW_ARC \<or> motion (bmodal l2) = MOTION_MODE_CCW_ARC"
    and "axis_command l2 = AXIS_COMMAND_MOTION_MODE"
    and "val_f (bvalues l2) \<noteq> 0"
    and "axis_words l2 \<inter> {X_AXIS, Y_AXIS} \<noteq> {}"
    and "WORD_R \<in> value_words l2"
    and "axis_0 env = X_AXIS" and "axis_1 env = Y_AXIS"
    and "length (position (gc_state w)) = N_AXIS"
    and "jog_execute_status env \<noteq> STATUS_GCODE_ARC_RADIUS_ERROR"
  shows "(let x = val_xyz (bvalues l2) ! X_AXIS - position (gc_state w) ! X_AXIS;
              y = val_xyz (bvalues l2) ! Y_AXIS - position (gc_state w) ! Y_AXIS;
              r = val_r (bvalues l2);
              h0 = 4 * r * r - x * x - y * y
          in (position (gc_state w) = val_xyz (bvalues l2)
                \<longrightarrow> gc_execute_line env w line = (STATUS_GCODE_INVALID_TARGET, w))
           \<and> (fst (gc_execute_line env w line) = STATUS_GCODE_ARC_RADIUS_ERROR) = (h0 < 0)
           \<and> (h0 < 0 \<longrightarrow> snd (gc_execute_line env w line) = w)
           \<and> (position (gc_state w) \<noteq> val_xyz (bvalues l2) \<and> 0 \<le> h0 \<longrightarrow>
                (\<exists>l3 i j.
                   check_motion_modes env (gc_state w) l2 = Inr l3
                   \<and> val_r (bvalues l3) = \<bar>r\<bar> \<and> 0 < val_r (bvalues l3)
                   \<and> val_ijk (bvalues l3) = (val_ijk (bvalues l2))[X_AXIS := i, Y_AXIS := j]
                   \<and> i * i + j * j = r * r
                   \<and> (x - i) * (x - i) + (y - j) * (y - j) = r * r
                   \<and> chord_side x y i j =
                       (if r < 0 then - 1 else 1)
                       * (if motion (bmodal l2) = MOTION_MODE_CCW_ARC then 1 else - 1)
                       * (sqrt h0 * hypot_f x y / 2)
                   \<and> (\<forall>l4. check_unused_words l3 = Inr l4
                             \<and> GC_PARSER_JOG_MOTION \<notin> gc_parser_flags l4 \<longrightarrow>
                         (\<exists>pl.
                            Mc_arc (val_xyz (bvalues l2)) pl (position (gc_state w))
                              (val_ijk (bvalues l3)) \<bar>r\<bar> X_AXIS Y_AXIS (axis_linear env)
                              (motion (bmodal l2) = MOTION_MODE_CW_ARC)
                            \<in> set (calls (snd (gc_execute_line env w line))))))))"
proof -
  define x where "x = val_xyz (bvalues l2) ! X_AXIS - position (gc_state w) ! X_AXIS"
  define y where "y = val_xyz (bvalues l2) ! Y_AXIS - position (gc_state w) ! Y_AXIS"
  define r where "r = val_r (bvalues l2)"
  define h0 where "h0 = 4 * r * r - x * x - y * y"
  define s :: real where
    "s = (if r < 0 then - 1 else 1) * (if motion (bmodal l2) = MOTION_MODE_CCW_ARC then 1 else - 1)"
  define h where "h = s * (sqrt h0 / hypot_f x y)"
  define i where "i = 0.5 * (x - y * h)"
  define j where "j = 0.5 * (y + x * h)"
  define F where "F = (if motion (bmodal l2) = MOTION_MODE_CW_ARC
              then l2\<lparr>gc_parser_flags := insert GC_PARSER_ARC_IS_CLOCKWISE (gc_parser_flags l2)\<rparr>
              else l2)"
  define l3 where "l3 = F\<lparr>value_words := value_words F - {WORD_R},
                   bvalues := (bvalues F)
                     \<lparr>val_r := \<bar>r\<bar>, val_ijk := (val_ijk (bvalues F))[X_AXIS := i, Y_AXIS := j]\<rparr>\<rparr>"
  have F: "bvalues F = bvalues l2" "bmodal F = bmodal l2" "axis_command F = axis_command l2"
    by (simp_all add: F_def)
  have "GC_PARSER_ARC_IS_CLOCKWISE \<notin> gc_parser_flags l2"
    using clockwise_flag_imported [OF assms(1)] check_before_motion_flags [OF assms(2)] by simp
  then have cw: "(GC_PARSER_ARC_IS_CLOCKWISE \<in> gc_parser_flags F)
                   = (motion (bmodal l2) = MOTION_MODE_CW_ARC)"
    by (simp add: F_def)
  have len: "length (val_xyz (bvalues l2)) = N_AXIS"
    using check_before_motion_xyz_length [OF assms(2)] xyz_length_imported [OF assms(1)] by simp
  have eq: "(position (gc_state w) = val_xyz (bvalues l2)) = (x = 0 \<and> y = 0)"
    using two_vectors_equal [OF assms(10) len] by (simp add: x_def y_def)
  have cm: "check_motion_modes env (gc_state w) l2 =
     (if position (gc_state w) = val_xyz (bvalues l2) then Inl STATUS_GCODE_INVALID_TARGET
      else if h0 < 0 then Inl STATUS_GCODE_ARC_RADIUS_ERROR else Inr l3)"
    unfolding radius_arc_check [OF assms(3-9)] arc_radius_mode_result
    by (simp add: F assms(8,9) Let_def l3_def i_def j_def h_def s_def h0_def r_def x_def y_def
          F_def [symmetric])
  have target: "gc_execute_line env w line = (STATUS_GCODE_INVALID_TARGET, w)"
    if "position (gc_state w) = val_xyz (bvalues l2)"
    using that cm by (intro gc_execute_line_check_fails [OF assms(1,2)]) simp
  have same_h0: "0 \<le> h0" if "position (gc_state w) = val_xyz (bvalues l2)"
    using that eq by (simp add: h0_def)
  have radius: "gc_execute_line env w line = (STATUS_GCODE_ARC_RADIUS_ERROR, w)" if "h0 < 0"
  proof -
    from that same_h0 have "position (gc_state w) \<noteq> val_xyz (bvalues l2)" by fastforce
    with that cm show ?thesis by (intro gc_execute_line_check_fails [OF assms(1,2)]) simp
  qed
  have passes: "check_motion_modes env (gc_state w) l2 = Inr l3"
    if "position (gc_state w) \<noteq> val_xyz (bvalues l2)" "0 \<le> h0"
    using that cm by simp
  have not_radius: "fst (gc_execute_line env w line) \<noteq> STATUS_GCODE_ARC_RADIUS_ERROR" if "0 \<le> h0"
  proof (cases "position (gc_state w) = val_xyz (bvalues l2)")
    case True
    then show ?thesis by (simp add: target)
  next
    case False
    from gc_execute_line_check_passes [OF assms(1,2) passes [OF False that]] assms(11)
    show ?thesis by auto
  qed
  have iff: "(fst (gc_execute_line env w line) = STATUS_GCODE_ARC_RADIUS_ERROR) = (h0 < 0)"
    using radius not_radius by (cases "h0 < 0") simp_all
  have centre: "\<exists>l3 i j.
                   check_motion_modes env (gc_state w) l2 = Inr l3
                   \<and> val_r (bvalues l3) = \<bar>r\<bar> \<and> 0 < val_r (bvalues l3)
                   \<and> val_ijk (bvalues l3) = (val_ijk (bvalues l2))[X_AXIS := i, Y_AXIS := j]
                   \<and> i * i + j * j = r * r
                   \<and> (x - i) * (x - i) + (y - j) * (y - j) = r * r
                   \<and> chord_side x y i j =
                       (if r < 0 then - 1 else 1)
                       * (if motion (bmodal l2) = MOTION_MODE_CCW_ARC then 1 else - 1)
                       * (sqrt h0 * hypot_f x y / 2)
                   \<and> (\<forall>l4. check_unused_words l3 = Inr l4
                             \<and> GC_PARSER_JOG_MOTION \<notin> gc_parser_flags l4 \<longrightarrow>
                         (\<exists>pl.
                            Mc_arc (val_xyz (bvalues l2)) pl (position (gc_state w))
                              (val_ijk (bvalues l3)) \<bar>r\<bar> X_AXIS Y_AXIS (axis_linear env)
                              (motion (bmodal l2) = MOTION_MODE_CW_ARC)
                            \<in> set (calls (snd (gc_execute_line env w line)))))"
    if ne: "position (gc_state w) \<noteq> val_xyz (bvalues l2)" and nonneg: "0 \<le> h0"
  proof -
    from ne eq have d: "x \<noteq> 0 \<or> y \<noteq> 0" by simp
    have ss: "s * s = 1" by (simp add: s_def)
    note facts = arc_center_facts [OF d nonneg [unfolded h0_def] ss,
        folded h0_def, folded h_def, folded i_def j_def]
    have l3: "val_r (bvalues l3) = \<bar>r\<bar>" "val_xyz (bvalues l3) = val_xyz (bvalues l2)"
      "val_ijk (bvalues l3) = (val_ijk (bvalues l2))[X_AXIS := i, Y_AXIS := j]"
      "motion (bmodal l3) = motion (bmodal l2)" "axis_command l3 = axis_command l2"
      "(GC_PARSER_ARC_IS_CLOCKWISE \<in> gc_parser_flags l3)
         = (motion (bmodal l2) = MOTION_MODE_CW_ARC)"
      by (simp_all add: l3_def F cw)
    have call: "\<exists>pl.
                  Mc_arc (val_xyz (bvalues l2)) pl (position (gc_state w))
                    (val_ijk (bvalues l3)) \<bar>r\<bar> X_AXIS Y_AXIS (axis_linear env)
                              (motion (bmodal l2) = MOTION_MODE_CW_ARC)
                  \<in> set (calls (snd (gc_execute_line env w line)))"
      if u: "check_unused_words l3 = Inr l4" and nj: "GC_PARSER_JOG_MOTION \<notin> gc_parser_flags l4"
      for l4
    proof -
      from u check_unused_words_frame [where l = l3]
      have l4: "bvalues l4 = bvalues l3" "bmodal l4 = bmodal l3" "axis_command l4 = axis_command l3"
        "gc_parser_flags l4 = gc_parser_flags l3"
        by simp_all
      have "Mc_arc (val_xyz (bvalues l4)) (snd (execute_modes l4 w)) (position (gc_state w))
           (val_ijk (bvalues l4)) (val_r (bvalues l4)) (axis_0 env) (axis_1 env) (axis_linear env)
           (GC_PARSER_ARC_IS_CLOCKWISE \<in> gc_parser_flags l4)
         \<in> set (calls (snd (execute_block env l4 w)))"
        using assms(3,4) by (intro execute_block_arc_call) (simp_all add: l4 l3)
      then show ?thesis
        unfolding gc_execute_line_executes [OF assms(1,2) passes [OF ne nonneg] u nj]
        by (auto simp: l4 l3 assms(8,9))
    qed
    from facts(4) have "0 < \<bar>r\<bar>" by simp
    with passes [OF ne nonneg] l3 facts(1-3) call show ?thesis
      unfolding s_def by (intro exI [of _ l3] exI [of _ i] exI [of _ j]) (simp add: mult.assoc)
  qed
  from target iff radius centre show ?thesis
    unfolding Let_def x_def [symmetric] y_def [symmetric] r_def [symmetric] h0_def [symmetric]
    by simp
qed

text \<open>
  The lemma at \<^verbatim>\<open>G2X4R1F100\<close> (the chord is longer than the diameter), at
  \<^verbatim>\<open>G2X0R1F100\<close> (the target is the current position) and at \<^verbatim>\<open>G2X2R-1F100\<close> (a negative
  radius; \<^verbatim>\<open>mc_arc\<close> receives the radius 1 and the clockwise direction).
\<close>

lemma radius_arc_examples:
  "fst (gc_execute_line plain_env stored_world
          (block [word (CHR ''G'') 2, word (CHR ''X'') 4, word (CHR ''R'') 1,
                  word (CHR ''F'') 100])) = STATUS_GCODE_ARC_RADIUS_ERROR
   \<and> gc_execute_line plain_env stored_world
          (block [word (CHR ''G'') 2, word (CHR ''X'') 0, word (CHR ''R'') 1,
                  word (CHR ''F'') 100])
        = (STATUS_GCODE_INVALID_TARGET, stored_world)
   \<and> (\<exists>pl ijk.
         Mc_arc [2, 0] pl [0, 0] ijk 1 X_AXIS Y_AXIS 2 True
         \<in> set (calls (snd (gc_execute_line plain_env stored_world
               (block [word (CHR ''G'') 2, word (CHR ''X'') 2, word (CHR ''R'') (- 1),
                       word (CHR ''F'') 100])))))"
proof (intro conjI)
  obtain l1 l2 where l: "import_words
        (gwords (block [word (CHR ''G'') 2, word (CHR ''X'') 4, word (CHR ''R'') 1,
                        word (CHR ''F'') 100]))
        (init_locals (gc_state stored_world)
           (jog (block [word (CHR ''G'') 2, word (CHR ''X'') 4, word (CHR ''R'') 1,
                        word (CHR ''F'') 100]))) = Inr l1"
      "check_before_motion stored_world l1 = Inr l2"
      "motion (bmodal l2) = MOTION_MODE_CW_ARC \<or> motion (bmodal l2) = MOTION_MODE_CCW_ARC"
      "axis_command l2 = AXIS_COMMAND_MOTION_MODE"
      "val_f (bvalues l2) \<noteq> 0"
      "axis_words l2 \<inter> {X_AXIS, Y_AXIS} \<noteq> {}"
      "WORD_R \<in> value_words l2"
      and v: "val_r (bvalues l2) = 1" "val_xyz (bvalues l2) = [4, 0]"
    by (simp add: gc_eval)
  from radius_arc_checks_in_plane [OF l, of plain_env] v
  show "fst (gc_execute_line plain_env stored_world
          (block [word (CHR ''G'') 2, word (CHR ''X'') 4, word (CHR ''R'') 1,
                  word (CHR ''F'') 100])) = STATUS_GCODE_ARC_RADIUS_ERROR"
    by (simp add: plain_env_def stored_world_def blank_state_def X_AXIS_def Y_AXIS_def
          N_AXIS_def Let_def)
  obtain k1 k2 where k: "import_words
        (gwords (block [word (CHR ''G'') 2, word (CHR ''X'') 0, word (CHR ''R'') 1,
                        word (CHR ''F'') 100]))
        (init_locals (gc_state stored_world)
           (jog (block [word (CHR ''G'') 2, word (CHR ''X'') 0, word (CHR ''R'') 1,
                        word (CHR ''F'') 100]))) = Inr k1"
      "check_before_motion stored_world k1 = Inr k2"
      "motion (bmodal k2) = MOTION_MODE_CW_ARC \<or> motion (bmodal k2) = MOTION_MODE_CCW_ARC"
      "axis_command k2 = AXIS_COMMAND_MOTION_MODE"
      "val_f (bvalues k2) \<noteq> 0"
      "axis_words k2 \<inter> {X_AXIS, Y_AXIS} \<noteq> {}"
      "WORD_R \<in> value_words k2"
      and u: "val_r (bvalues k2) = 1" "val_xyz (bvalues k2) = [0, 0]"
    by (simp add: gc_eval)
  from radius_arc_checks_in_plane [OF k, of plain_env] u
  show "gc_execute_line plain_env stored_world
          (block [word (CHR ''G'') 2, word (CHR ''X'') 0, word (CHR ''R'') 1,
                  word (CHR ''F'') 100])
        = (STATUS_GCODE_INVALID_TARGET, stored_world)"
    by (simp add: plain_env_def stored_world_def blank_state_def X_AXIS_def Y_AXIS_def
          N_AXIS_def Let_def)
  obtain m1 m2 where m: "import_words
        (gwords (block [word (CHR ''G'') 2, word (CHR ''X'') 2, word (CHR ''R'') (- 1),
                        word (CHR ''F'') 100]))
        (init_locals (gc_state stored_world)
           (jog (block [word (CHR ''G'') 2, word (CHR ''X'') 2, word (CHR ''R'') (- 1),
                        word (CHR ''F'') 100]))) = Inr m1"
      "check_before_motion stored_world m1 = Inr m2"
      "motion (bmodal m2) = MOTION_MODE_CW_ARC \<or> motion (bmodal m2) = MOTION_MODE_CCW_ARC"
      "axis_command m2 = AXIS_COMMAND_MOTION_MODE"
      "val_f (bvalues m2) \<noteq> 0"
      "axis_words m2 \<inter> {X_AXIS, Y_AXIS} \<noteq> {}"
      "WORD_R \<in> value_words m2"
      and t: "val_r (bvalues m2) = - 1" "val_xyz (bvalues m2) = [2, 0]"
        "motion (bmodal m2) = MOTION_MODE_CW_ARC"
      and un: "\<exists>l4. check_unused_words
                       (projr (check_motion_modes plain_env (gc_state stored_world) m2)) = Inr l4
                     \<and> GC_PARSER_JOG_MOTION \<notin> gc_parser_flags l4"
    by (simp add: gc_eval)
  from radius_arc_checks_in_plane [OF m, of plain_env] t
  obtain l3 where l3: "check_motion_modes plain_env (gc_state stored_world) m2 = Inr l3"
    and call: "\<forall>l4. check_unused_words l3 = Inr l4
                     \<and> GC_PARSER_JOG_MOTION \<notin> gc_parser_flags l4 \<longrightarrow>
                 (\<exists>pl.
                    Mc_arc [2, 0] pl [0, 0] (val_ijk (bvalues l3)) 1 X_AXIS Y_AXIS 2 True
                    \<in> set (calls (snd (gc_execute_line plain_env stored_world
                          (block [word (CHR ''G'') 2, word (CHR ''X'') 2, word (CHR ''R'') (- 1),
                                  word (CHR ''F'') 100])))))"
    by (simp add: plain_env_def stored_world_def blank_state_def X_AXIS_def Y_AXIS_def
          N_AXIS_def Let_def) blast
  from un l3 obtain l4 where "check_unused_words l3 = Inr l4
      \<and> GC_PARSER_JOG_MOTION \<notin> gc_parser_flags l4" by auto
  with call show "\<exists>pl ijk.
         Mc_arc [2, 0] pl [0, 0] ijk 1 X_AXIS Y_AXIS 2 True
         \<in> set (calls (snd (gc_execute_line plain_env stored_world
               (block [word (CHR ''G'') 2, word (CHR ''X'') 2, word (CHR ''R'') (- 1),
                       word (CHR ''F'') 100]))))"
    by blast
qed

text \<open>
  C7. The claim: every G2 or G3 block with an R word and an axis word in the plane fails with
  \<^verbatim>\<open>STATUS_GCODE_ARC_RADIUS_ERROR\<close> exactly when \<open>4 r\<^sup>2 - d\<^sup>2 < 0\<close>, \<open>d\<close> the length of
  the chord. The chord is read through \<^verbatim>\<open>axis_0\<close> and \<^verbatim>\<open>axis_1\<close> (lines 613 and 614),
  which the code never assigns (the defect of C4). For \<^verbatim>\<open>G2X2R1.2F100\<close> from the origin
  the chord is \<open>(2, 0)\<close> and \<open>4 r\<^sup>2 - d\<^sup>2 = 1.76\<close>. When the locals hold X and Y the block is
  accepted; when all three hold 0 the code takes \<open>(2, 2)\<close> for the chord and the block fails
  with \<^verbatim>\<open>STATUS_GCODE_ARC_RADIUS_ERROR\<close>.
\<close>

theorem radius_arc_error_follows_unassigned_axes:
  "(let arc = block [word (CHR ''G'') 2, word (CHR ''X'') 2, word (CHR ''R'') 1.2,
                     word (CHR ''F'') 100];
        zeros = plain_env\<lparr>axis_0 := 0, axis_1 := 0, axis_linear := 0\<rparr>;
        x = 2 - position (gc_state stored_world) ! X_AXIS;
        y = 0 - position (gc_state stored_world) ! Y_AXIS
    in 0 \<le> 4 * 1.2 * 1.2 - (x * x + y * y)
       \<and> gc_execute_line zeros stored_world arc = (STATUS_GCODE_ARC_RADIUS_ERROR, stored_world)
       \<and> fst (gc_execute_line plain_env stored_world arc) = STATUS_OK)"
  by (simp add: gc_eval)

end
